theory Spec2Isabelle
  imports Complex_Main
begin

section \<open>JavaScript numbers\<close>

text \<open>
  The values of the source are JavaScript numbers, that is IEEE doubles: \<open>NaN\<close> (what
  \<open>parseFloat\<close> returns on text that is no number, and what \<open>0 / 0\<close> gives),
  \<open>Infinity\<close>, \<open>-Infinity\<close>, or a finite double, given by its real value.

  An arithmetic operation of the language on two finite doubles computes the exact result
  and rounds it: to the nearest double, to 0 when the result is too small, to an infinity
  when it is too large. This rounding is the parameter \<open>rnd\<close> of every operation and of
  every function below. A statement with a free \<open>rnd\<close> holds for every rounding, so also
  for that of the doubles; what a statement needs of the rounding, it says. Comparison,
  negation and \<open>Math.max\<close> do not round.

  The sign of zero is left out. It shows only in the sign of a quotient by zero, and the
  programs below divide by a period, by a count and by an average that is not zero.
\<close>

datatype number = NaN | PInf | NInf | Fin real

fun jneg :: "number \<Rightarrow> number" where
  "jneg NaN = NaN"
| "jneg PInf = NInf"
| "jneg NInf = PInf"
| "jneg (Fin x) = Fin (- x)"

fun jadd :: "(real \<Rightarrow> number) \<Rightarrow> number \<Rightarrow> number \<Rightarrow> number" where
  "jadd rnd NaN _ = NaN"
| "jadd rnd _ NaN = NaN"
| "jadd rnd PInf NInf = NaN"
| "jadd rnd NInf PInf = NaN"
| "jadd rnd PInf _ = PInf"
| "jadd rnd _ PInf = PInf"
| "jadd rnd NInf _ = NInf"
| "jadd rnd _ NInf = NInf"
| "jadd rnd (Fin x) (Fin y) = rnd (x + y)"

definition jsub :: "(real \<Rightarrow> number) \<Rightarrow> number \<Rightarrow> number \<Rightarrow> number" where
  "jsub rnd a b = jadd rnd a (jneg b)"

text \<open>The sign of an infinite product or quotient: positive when both signs agree.\<close>

definition signed_inf :: "bool \<Rightarrow> number" where
  "signed_inf pos = (if pos then PInf else NInf)"

fun jmul :: "(real \<Rightarrow> number) \<Rightarrow> number \<Rightarrow> number \<Rightarrow> number" where
  "jmul rnd NaN _ = NaN"
| "jmul rnd _ NaN = NaN"
| "jmul rnd PInf PInf = PInf"
| "jmul rnd PInf NInf = NInf"
| "jmul rnd NInf PInf = NInf"
| "jmul rnd NInf NInf = PInf"
| "jmul rnd PInf (Fin y) = (if y = 0 then NaN else signed_inf (0 < y))"
| "jmul rnd NInf (Fin y) = (if y = 0 then NaN else signed_inf (y < 0))"
| "jmul rnd (Fin x) PInf = (if x = 0 then NaN else signed_inf (0 < x))"
| "jmul rnd (Fin x) NInf = (if x = 0 then NaN else signed_inf (x < 0))"
| "jmul rnd (Fin x) (Fin y) = rnd (x * y)"

fun jdiv :: "(real \<Rightarrow> number) \<Rightarrow> number \<Rightarrow> number \<Rightarrow> number" where
  "jdiv rnd NaN _ = NaN"
| "jdiv rnd _ NaN = NaN"
| "jdiv rnd PInf (Fin y) = signed_inf (0 \<le> y)"
| "jdiv rnd NInf (Fin y) = signed_inf (y < 0)"
| "jdiv rnd PInf _ = NaN"
| "jdiv rnd NInf _ = NaN"
| "jdiv rnd (Fin x) PInf = Fin 0"
| "jdiv rnd (Fin x) NInf = Fin 0"
| "jdiv rnd (Fin x) (Fin y) =
     (if y = 0 then (if x = 0 then NaN else signed_inf (0 < x)) else rnd (x / y))"

text \<open>\<open>a > b\<close>: false as soon as one side is \<open>NaN\<close>.\<close>

fun jgt :: "number \<Rightarrow> number \<Rightarrow> bool" where
  "jgt NaN _ = False"
| "jgt _ NaN = False"
| "jgt PInf b = (b \<noteq> PInf)"
| "jgt NInf _ = False"
| "jgt (Fin x) PInf = False"
| "jgt (Fin x) NInf = True"
| "jgt (Fin x) (Fin y) = (y < x)"

text \<open>\<open>a <= b\<close>, false as well as soon as one side is \<open>NaN\<close>.\<close>

fun jle :: "number \<Rightarrow> number \<Rightarrow> bool" where
  "jle NaN _ = False"
| "jle _ NaN = False"
| "jle NInf _ = True"
| "jle _ PInf = True"
| "jle PInf _ = False"
| "jle (Fin x) NInf = False"
| "jle (Fin x) (Fin y) = (x \<le> y)"

text \<open>\<open>a === b\<close> on numbers: \<open>NaN\<close> equals nothing, not even itself.\<close>

definition jeq :: "number \<Rightarrow> number \<Rightarrow> bool" where
  "jeq a b = (a \<noteq> NaN \<and> b \<noteq> NaN \<and> a = b)"

text \<open>\<open>Math.max(a, b)\<close>: \<open>NaN\<close> if one argument is, else the larger.\<close>

definition jmax :: "number \<Rightarrow> number \<Rightarrow> number" where
  "jmax a b = (if a = NaN \<or> b = NaN then NaN else if jgt b a then b else a)"

text \<open>
  What the range of the oscillator needs of a rounding, and what the rounding of the
  doubles gives: it is monotone (so it never yields \<open>NaN\<close>), and it leaves 0, 1 and 100,
  which are doubles, as they are.
\<close>

definition rounding :: "(real \<Rightarrow> number) \<Rightarrow> bool" where
  "rounding rnd =
     ((\<forall>x y. x \<le> y \<longrightarrow> jle (rnd x) (rnd y))
      \<and> rnd 0 = Fin 0 \<and> rnd 1 = Fin 1 \<and> rnd 100 = Fin 100)"

text \<open>
  A rounding for concrete computations. From \<open>2 ^ 1024\<close> on a result overflows to an
  infinity; the table \<open>tab\<close> lists, for the exact results of the computation at hand
  that are no doubles, the double that is nearest; every other result is taken as it
  is. On a computation whose inexact results are all in the table, and where nothing
  underflows, this is the arithmetic of the doubles.
\<close>

definition ieee_on :: "(real \<times> real) list \<Rightarrow> real \<Rightarrow> number" where
  "ieee_on tab x =
     (if 2 ^ 1024 \<le> x then PInf
      else if x \<le> - (2 ^ 1024) then NInf
      else (case map_of tab x of Some y \<Rightarrow> Fin y | None \<Rightarrow> Fin x))"

text \<open>
  Two predicates for the range of the oscillator: a number that is not below zero
  (\<open>NaN\<close> counts as such here), and a finite number from 0 to 100.
\<close>

fun not_negative :: "number \<Rightarrow> bool" where
  "not_negative NaN = True"
| "not_negative PInf = True"
| "not_negative NInf = False"
| "not_negative (Fin x) = (0 \<le> x)"

fun percent :: "number \<Rightarrow> bool" where
  "percent (Fin x) = (0 \<le> x \<and> x \<le> 100)"
| "percent _ = False"

section \<open>The whale detector (src/backend/whaleDetector.js)\<close>

subsection \<open>State\<close>

text \<open>
  A trade record as \<open>processTrade\<close> builds it. Timestamps are integers, the
  milliseconds since the epoch that the feed and \<open>Date.now()\<close> supply.
\<close>

record trade =
  price :: number
  quantity :: number
  tradeValue :: number
  timestamp :: int
  isWhale :: bool

text \<open>
  \<open>lastWhaleTime\<close> is \<open>null\<close> or the ISO rendering of a clock reading; the model
  keeps the reading itself.
\<close>

record metrics =
  totalVolume24h :: number
  whaleCount :: nat
  maxWhaleAmount :: number
  lastWhaleTime :: "int option"
  averageWhaleSize :: number

record detector =
  tradeHistory :: "trade list"
  lastPrice :: number
  aggregatedVolume :: number
  lastVolumeResetTime :: int
  metrics :: metrics

definition WHALE_THRESHOLD :: number where
  "WHALE_THRESHOLD = Fin 500000"

definition MAX_HISTORY :: nat where
  "MAX_HISTORY = 3600"

definition initial_metrics :: metrics where
  "initial_metrics =
     \<lparr>totalVolume24h = Fin 0, whaleCount = 0, maxWhaleAmount = Fin 0,
      lastWhaleTime = None, averageWhaleSize = Fin 0\<rparr>"

text \<open>The constructor; \<open>t0\<close> is what \<open>Date.now()\<close> reads when it runs.\<close>

definition new_detector :: "int \<Rightarrow> detector" where
  "new_detector t0 =
     \<lparr>tradeHistory = [], lastPrice = Fin 0, aggregatedVolume = Fin 0,
      lastVolumeResetTime = t0, metrics = initial_metrics\<rparr>"

subsection \<open>processTrade and onWhaleDetected\<close>

text \<open>
  The argument of \<open>processTrade\<close> is whatever the feed sent, parsed as JSON. It is
  \<open>None\<close> when it is \<open>null\<close> or \<open>undefined\<close>: then reading \<open>trade.p\<close> throws a
  \<open>TypeError\<close>. Otherwise \<open>p\<close> and \<open>q\<close> are the values of its two fields, of any
  kind (text, on the exchange's stream), and \<open>T\<close> is the trade time, if there is one.

  The built-in \<open>parseFloat\<close> is a parameter. It converts its argument to text first,
  and this conversion throws a \<open>TypeError\<close> on an object without a callable
  \<open>toString\<close> or \<open>valueOf\<close>; on every text it returns a number, \<open>NaN\<close> on text that
  does not start with one.
\<close>

datatype error = TypeError

record 'a raw_trade =
  p :: 'a
  q :: 'a
  T :: "int option"

text \<open>
  One call reads the clock up to three times: for a missing trade time, for the time
  of a whale, and for the check of the volume window.
\<close>

record clock =
  stamp_now :: int
  whale_now :: int
  reset_now :: int

text \<open>
  The first two statements of \<open>processTrade\<close>, which are the ones that can throw, and
  the read of \<open>trade.T\<close>. They come before every assignment to the state.
\<close>

definition parse_trade ::
  "('a \<Rightarrow> error + number) \<Rightarrow> 'a raw_trade option \<Rightarrow> error + (number \<times> number \<times> int option)" where
  "parse_trade parseFloat raw =
     (case raw of
        None \<Rightarrow> Inl TypeError
      | Some tr \<Rightarrow>
          (case parseFloat (p tr) of
             Inl e \<Rightarrow> Inl e
           | Inr pr \<Rightarrow>
               (case parseFloat (q tr) of
                  Inl e \<Rightarrow> Inl e
                | Inr qt \<Rightarrow> Inr (pr, qt, T tr))))"

text \<open>\<open>trade.T || Date.now()\<close>: an absent \<open>T\<close> and \<open>T = 0\<close> are both falsy.\<close>

definition timestamp_or_now :: "int option \<Rightarrow> int \<Rightarrow> int" where
  "timestamp_or_now t now = (case t of None \<Rightarrow> now | Some v \<Rightarrow> if v = 0 then now else v)"

definition onWhaleDetected :: "(real \<Rightarrow> number) \<Rightarrow> int \<Rightarrow> trade \<Rightarrow> metrics \<Rightarrow> metrics" where
  "onWhaleDetected rnd now tr m =
     (let count = whaleCount m + 1;
          mx = jmax (maxWhaleAmount m) (tradeValue tr)
      in m\<lparr>whaleCount := count, maxWhaleAmount := mx, lastWhaleTime := Some now,
            averageWhaleSize := jdiv rnd mx (Fin (real count))\<rparr>)"

text \<open>\<open>push\<close>, then \<open>shift\<close> when the array got longer than \<open>MAX_HISTORY\<close>.\<close>

definition push_history :: "trade \<Rightarrow> trade list \<Rightarrow> trade list" where
  "push_history r h = (let h' = h @ [r] in if length h' > MAX_HISTORY then tl h' else h')"

text \<open>The record built from the parsed price and quantity and the trade time.\<close>

definition make_record ::
  "(real \<Rightarrow> number) \<Rightarrow> clock \<Rightarrow> number \<times> number \<times> int option \<Rightarrow> trade" where
  "make_record rnd c parsed =
     (let pr = fst parsed;
          qt = fst (snd parsed);
          ts = timestamp_or_now (snd (snd parsed)) (stamp_now c);
          tv = jmul rnd pr qt
      in \<lparr>price = pr, quantity = qt, tradeValue = tv, timestamp = ts,
          isWhale = jgt tv WHALE_THRESHOLD\<rparr>)"

text \<open>The assignments to the state, in the order of the source.\<close>

definition store_trade :: "(real \<Rightarrow> number) \<Rightarrow> clock \<Rightarrow> trade \<Rightarrow> detector \<Rightarrow> detector" where
  "store_trade rnd c tradeRecord d =
     (let d1 = d\<lparr>lastPrice := price tradeRecord\<rparr>;
          d2 = d1\<lparr>aggregatedVolume := jadd rnd (aggregatedVolume d1) (quantity tradeRecord)\<rparr>;
          d3 = d2\<lparr>tradeHistory := push_history tradeRecord (tradeHistory d2)\<rparr>;
          d4 = (if jgt (tradeValue tradeRecord) WHALE_THRESHOLD
                then d3\<lparr>metrics := onWhaleDetected rnd (whale_now c) tradeRecord (metrics d3)\<rparr>
                else d3);
          now = reset_now c
      in if now - lastVolumeResetTime d4 > 60000
         then d4\<lparr>aggregatedVolume := Fin 0, lastVolumeResetTime := now\<rparr>
         else d4)"

text \<open>
  \<open>processTrade\<close>: an error, or the record built and the state after the call. An
  error leaves the state as it was, since nothing is assigned before the throw.
\<close>

definition processTrade ::
  "(real \<Rightarrow> number) \<Rightarrow> ('a \<Rightarrow> error + number) \<Rightarrow> clock \<Rightarrow> 'a raw_trade option \<Rightarrow> detector
     \<Rightarrow> error + (trade \<times> detector)" where
  "processTrade rnd parseFloat c raw d =
     (case parse_trade parseFloat raw of
        Inl e \<Rightarrow> Inl e
      | Inr parsed \<Rightarrow>
          (let tradeRecord = make_record rnd c parsed
           in Inr (tradeRecord, store_trade rnd c tradeRecord d)))"

text \<open>
  A finite sequence of calls, each with its clock readings and its argument. The caller
  (the message handler of the server) catches what a call throws and goes on with the
  next message, on the state that the failed call left untouched.
\<close>

fun process_all ::
  "(real \<Rightarrow> number) \<Rightarrow> ('a \<Rightarrow> error + number) \<Rightarrow> (clock \<times> 'a raw_trade option) list
     \<Rightarrow> detector \<Rightarrow> detector" where
  "process_all rnd parseFloat [] d = d"
| "process_all rnd parseFloat (cr # rest) d =
     (case processTrade rnd parseFloat (fst cr) (snd cr) d of
        Inl e \<Rightarrow> process_all rnd parseFloat rest d
      | Inr rd \<Rightarrow> process_all rnd parseFloat rest (snd rd))"

text \<open>The records that the calls of such a sequence return, in the order of the calls.\<close>

fun records ::
  "(real \<Rightarrow> number) \<Rightarrow> ('a \<Rightarrow> error + number) \<Rightarrow> (clock \<times> 'a raw_trade option) list
     \<Rightarrow> trade list" where
  "records rnd parseFloat [] = []"
| "records rnd parseFloat (cr # rest) =
     (case parse_trade parseFloat (snd cr) of
        Inl e \<Rightarrow> records rnd parseFloat rest
      | Inr parsed \<Rightarrow> make_record rnd (fst cr) parsed # records rnd parseFloat rest)"

subsection \<open>getMetrics and reset\<close>

text \<open>
  The snapshot spreads the metrics and adds two fields. \<open>toFixed\<close> is the built-in
  \<open>Number.prototype.toFixed\<close>, a parameter of the model: digits first, then the number.
\<close>

record snapshot = metrics +
  currentPrice :: number
  hourlyVolume :: string

definition getMetrics :: "(nat \<Rightarrow> number \<Rightarrow> string) \<Rightarrow> detector \<Rightarrow> snapshot" where
  "getMetrics toFixed d =
     \<lparr>totalVolume24h = totalVolume24h (metrics d), whaleCount = whaleCount (metrics d),
      maxWhaleAmount = maxWhaleAmount (metrics d), lastWhaleTime = lastWhaleTime (metrics d),
      averageWhaleSize = averageWhaleSize (metrics d),
      currentPrice = lastPrice d, hourlyVolume = toFixed 4 (aggregatedVolume d)\<rparr>"

definition reset :: "detector \<Rightarrow> detector" where
  "reset d = d\<lparr>metrics := initial_metrics, tradeHistory := [], aggregatedVolume := Fin 0\<rparr>"

subsection \<open>getChartData\<close>

record bucket =
  bucket_price :: number
  totalVolume :: number
  count :: nat
  bucket_timestamp :: int

record chart_data =
  labels :: "string list"
  prices :: "string list"
  volumes :: "string list"
  timestamps :: "int list"

text \<open>
  The \<open>Map\<close> of buckets is a list of pairs in insertion order. \<open>has\<close> and \<open>get\<close>
  are \<open>map_of\<close>; \<open>set\<close> and the update of a stored bucket in place are \<open>map_set\<close>,
  which replaces the value of a key where it stands and appends a new key.
\<close>

fun map_set :: "int \<Rightarrow> bucket \<Rightarrow> (int \<times> bucket) list \<Rightarrow> (int \<times> bucket) list" where
  "map_set k v [] = [(k, v)]"
| "map_set k v (e # es) = (if fst e = k then (k, v) # es else e # map_set k v es)"

text \<open>\<open>Math.floor(timestamp / 60000) * 60000\<close> on an integer timestamp.\<close>

definition bucketTime :: "trade \<Rightarrow> int" where
  "bucketTime tr = (timestamp tr div 60000) * 60000"

text \<open>The body of the \<open>forEach\<close>, for one trade.\<close>

definition bucket_step ::
  "(real \<Rightarrow> number) \<Rightarrow> int \<Rightarrow> (int \<times> bucket) list \<Rightarrow> trade \<Rightarrow> (int \<times> bucket) list" where
  "bucket_step rnd oneHourAgo buckets tr =
     (if timestamp tr \<ge> oneHourAgo
      then let k = bucketTime tr;
               buckets1 = (if map_of buckets k = None
                           then map_set k \<lparr>bucket_price = price tr, totalVolume = Fin 0,
                                          count = 0, bucket_timestamp = k\<rparr> buckets
                           else buckets)
           in (case map_of buckets1 k of
                 None \<Rightarrow> buckets1
               | Some b \<Rightarrow>
                   map_set k (b\<lparr>totalVolume := jadd rnd (totalVolume b) (quantity tr),
                                bucket_price := price tr,
                                count := count b + 1\<rparr>) buckets1)
      else buckets)"

text \<open>The buckets after the loop, sorted by \<open>a.timestamp - b.timestamp\<close>.\<close>

definition sortedBuckets :: "(real \<Rightarrow> number) \<Rightarrow> int \<Rightarrow> trade list \<Rightarrow> bucket list" where
  "sortedBuckets rnd now h =
     (let oneHourAgo = now - 60 * 60 * 1000;
          buckets = foldl (bucket_step rnd oneHourAgo) [] h
      in sort_key bucket_timestamp (map snd buckets))"

text \<open>
  \<open>toLocaleTimeString\<close> renders a bucket time as a label; like \<open>toFixed\<close> it is a
  parameter.
\<close>

definition getChartData ::
  "(real \<Rightarrow> number) \<Rightarrow> (int \<Rightarrow> string) \<Rightarrow> (nat \<Rightarrow> number \<Rightarrow> string) \<Rightarrow> int \<Rightarrow> detector
     \<Rightarrow> chart_data" where
  "getChartData rnd toLocaleTimeString toFixed now d =
     (if length (tradeHistory d) = 0
      then \<lparr>labels = [], prices = [], volumes = [], timestamps = []\<rparr>
      else let bs = sortedBuckets rnd now (tradeHistory d)
           in \<lparr>labels = map (\<lambda>b. toLocaleTimeString (bucket_timestamp b)) bs,
               prices = map (\<lambda>b. toFixed 2 (bucket_price b)) bs,
               volumes = map (\<lambda>b. toFixed 4 (totalVolume b)) bs,
               timestamps = map bucket_timestamp bs\<rparr>)"

text \<open>
  Words for the statements about the chart: a trade is in the window of \<open>now\<close> when it
  is at most one hour old; the members of the bucket \<open>k\<close> are the trades of the window,
  in the order of the history, whose time floors to \<open>k\<close>; the sum of a list of numbers
  starts at 0 and adds from the left, as the loop does.
\<close>

definition in_window :: "int \<Rightarrow> trade \<Rightarrow> bool" where
  "in_window now tr = (timestamp tr \<ge> now - 3600000)"

definition members :: "int \<Rightarrow> trade list \<Rightarrow> int \<Rightarrow> trade list" where
  "members now h k = filter (\<lambda>tr. in_window now tr \<and> bucketTime tr = k) h"

definition jsum :: "(real \<Rightarrow> number) \<Rightarrow> number list \<Rightarrow> number" where
  "jsum rnd xs = foldl (jadd rnd) (Fin 0) xs"

text \<open>
  The chronologically last trade of a list: the one with the greatest timestamp (the
  later one in the list among equals); the argument is the choice so far.
\<close>

fun chrono_last :: "trade \<Rightarrow> trade list \<Rightarrow> trade" where
  "chrono_last best [] = best"
| "chrono_last best (tr # trs) =
     chrono_last (if timestamp best \<le> timestamp tr then tr else best) trs"

section \<open>The indicators of the chart page\<close>

text \<open>
  \<open>calculateSMA\<close>, \<open>calculateEMA\<close> and \<open>calculateRSI\<close>. The prices are an array
  of numbers, the period a natural number; \<open>null\<close> is \<open>None\<close>.
\<close>

text \<open>\<open>prices.slice(-period)\<close>: the last \<open>period\<close> entries; \<open>slice(-0)\<close> is the whole array.\<close>

definition slice_last :: "nat \<Rightarrow> 'a list \<Rightarrow> 'a list" where
  "slice_last n xs = (if n = 0 then xs else drop (length xs - n) xs)"

definition calculateSMA :: "(real \<Rightarrow> number) \<Rightarrow> number list \<Rightarrow> nat \<Rightarrow> number option" where
  "calculateSMA rnd ps period =
     (if length ps < period then None
      else Some (jdiv rnd (jsum rnd (slice_last period ps)) (Fin (real period))))"

definition ema_step :: "(real \<Rightarrow> number) \<Rightarrow> number list \<Rightarrow> number \<Rightarrow> number \<Rightarrow> nat \<Rightarrow> number" where
  "ema_step rnd ps k ema i =
     jadd rnd (jmul rnd (ps ! i) k) (jmul rnd ema (jsub rnd (Fin 1) k))"

definition calculateEMA :: "(real \<Rightarrow> number) \<Rightarrow> number list \<Rightarrow> nat \<Rightarrow> number option" where
  "calculateEMA rnd ps period =
     (if length ps < period then None
      else let k = jdiv rnd (Fin 2) (jadd rnd (Fin (real period)) (Fin 1));
               ema = jdiv rnd (jsum rnd (slice_last period ps)) (Fin (real period))
           in Some (foldl (ema_step rnd ps k) ema [period ..< length ps]))"

text \<open>
  The exponential average as the specification words it: the seed is the simple average
  of the first \<open>period\<close> closes, and the recurrence runs over the closes after them.
\<close>

definition spec_EMA :: "(real \<Rightarrow> number) \<Rightarrow> number list \<Rightarrow> nat \<Rightarrow> number option" where
  "spec_EMA rnd ps period =
     (if length ps < period then None
      else let k = jdiv rnd (Fin 2) (jadd rnd (Fin (real period)) (Fin 1));
               seed = jdiv rnd (jsum rnd (take period ps)) (Fin (real period))
           in Some (foldl (\<lambda>ema c. jadd rnd (jmul rnd c k) (jmul rnd ema (jsub rnd (Fin 1) k)))
                      seed (drop period ps)))"

text \<open>
  The body of the loop of \<open>calculateRSI\<close>; the state is \<open>(gains, losses)\<close>. The loop
  starts at \<open>prices.length - period\<close>, which is at least 1 behind the guard of the
  function, so \<open>i - 1\<close> is an index of the array.
\<close>

definition rsi_step ::
  "(real \<Rightarrow> number) \<Rightarrow> number list \<Rightarrow> number \<times> number \<Rightarrow> nat \<Rightarrow> number \<times> number" where
  "rsi_step rnd ps gl i =
     (let diff = jsub rnd (ps ! i) (ps ! (i - 1))
      in if jgt diff (Fin 0) then (jadd rnd (fst gl) diff, snd gl)
         else (fst gl, jsub rnd (snd gl) diff))"

definition rsi_sums :: "(real \<Rightarrow> number) \<Rightarrow> number list \<Rightarrow> nat \<Rightarrow> number \<times> number" where
  "rsi_sums rnd ps period =
     foldl (rsi_step rnd ps) (Fin 0, Fin 0) [length ps - period ..< length ps]"

definition calculateRSI :: "(real \<Rightarrow> number) \<Rightarrow> number list \<Rightarrow> nat \<Rightarrow> number" where
  "calculateRSI rnd ps period =
     (if length ps < period + 1 then Fin 50
      else let gl = rsi_sums rnd ps period;
               avgGain = jdiv rnd (fst gl) (Fin (real period));
               avgLoss = jdiv rnd (snd gl) (Fin (real period));
               rs = (if jeq avgLoss (Fin 0) then Fin 100 else jdiv rnd avgGain avgLoss)
           in jsub rnd (Fin 100) (jdiv rnd (Fin 100) (jadd rnd (Fin 1) rs)))"

text \<open>
  Words for the statements about the oscillator: the trailing \<open>period\<close> differences of
  consecutive closes as the loop computes them, and the two averages.
\<close>

definition rsi_deltas :: "(real \<Rightarrow> number) \<Rightarrow> number list \<Rightarrow> nat \<Rightarrow> number list" where
  "rsi_deltas rnd ps period =
     map (\<lambda>i. jsub rnd (ps ! i) (ps ! (i - 1))) [length ps - period ..< length ps]"

definition rsi_avgGain :: "(real \<Rightarrow> number) \<Rightarrow> number list \<Rightarrow> nat \<Rightarrow> number" where
  "rsi_avgGain rnd ps period = jdiv rnd (fst (rsi_sums rnd ps period)) (Fin (real period))"

definition rsi_avgLoss :: "(real \<Rightarrow> number) \<Rightarrow> number list \<Rightarrow> nat \<Rightarrow> number" where
  "rsi_avgLoss rnd ps period = jdiv rnd (snd (rsi_sums rnd ps period)) (Fin (real period))"

text \<open>
  The results that are no doubles in the computation of \<open>calculateEMA([10, 20, 30], 2)\<close>
  and of the average that the specification describes, each with the double nearest to
  it: \<open>k = 2 / 3\<close>, the products \<open>30 * k\<close>, \<open>25 * (1 - k)\<close> and \<open>15 * (1 - k)\<close>, and
  the two final sums.
\<close>

definition ema_table :: "(real \<times> real) list" where
  "ema_table =
     [(2 / 3, 6004799503160661 / 9007199254740992),
      (30 * (6004799503160661 / 9007199254740992), 20),
      (25 * (3002399751580331 / 9007199254740992), 4691249611844267 / 562949953421312),
      (20 + 4691249611844267 / 562949953421312, 3987562170067627 / 140737488355328),
      (15 * (3002399751580331 / 9007199254740992), 5629499534213121 / 1125899906842624),
      (20 + 5629499534213121 / 1125899906842624, 25)]"

text \<open>
  The same for \<open>100 - 100 / (1 + 100)\<close>, which \<open>calculateRSI\<close> computes when the
  average loss is zero: the quotient \<open>100 / 101\<close> and the difference.
\<close>

definition rsi_table :: "(real \<times> real) list" where
  "rsi_table =
     [(100 / 101, 1114752383012499 / 1125899906842624),
      (100 - 1114752383012499 / 1125899906842624, 6967202393828119 / 70368744177664)]"

section \<open>What one call does\<close>

lemmas run_defs =
  processTrade_def parse_trade_def make_record_def store_trade_def push_history_def
  timestamp_or_now_def onWhaleDetected_def jmax_def WHALE_THRESHOLD_def MAX_HISTORY_def
  new_detector_def initial_metrics_def ieee_on_def Let_def

lemma processTrade_Inr:
  "(processTrade rnd pf c raw d = Inr (r, d')) =
     (\<exists>parsed. parse_trade pf raw = Inr parsed \<and> r = make_record rnd c parsed
        \<and> d' = store_trade rnd c r d)"
  by (auto simp: processTrade_def Let_def split: sum.splits)

lemma processTrade_Inl:
  "(processTrade rnd pf c raw d = Inl e) = (parse_trade pf raw = Inl e)"
  by (auto simp: processTrade_def Let_def split: sum.splits)

lemma parse_trade_Inr:
  "(parse_trade pf raw = Inr parsed) =
     (\<exists>t. raw = Some t \<and> pf (p t) = Inr (fst parsed) \<and> pf (q t) = Inr (fst (snd parsed))
        \<and> T t = snd (snd parsed))"
  by (cases parsed) (auto simp: parse_trade_def split: option.splits sum.splits)

lemma make_record_fields:
  "price (make_record rnd c parsed) = fst parsed"
  "quantity (make_record rnd c parsed) = fst (snd parsed)"
  "tradeValue (make_record rnd c parsed) = jmul rnd (fst parsed) (fst (snd parsed))"
  "isWhale (make_record rnd c parsed) =
     jgt (jmul rnd (fst parsed) (fst (snd parsed))) WHALE_THRESHOLD"
  "timestamp (make_record rnd c parsed) = timestamp_or_now (snd (snd parsed)) (stamp_now c)"
  by (simp_all add: make_record_def Let_def)

lemma store_trade_history:
  "tradeHistory (store_trade rnd c r d) = push_history r (tradeHistory d)"
  by (simp add: store_trade_def Let_def)

lemma store_trade_lastPrice: "lastPrice (store_trade rnd c r d) = price r"
  by (simp add: store_trade_def Let_def)

lemma store_trade_metrics:
  "metrics (store_trade rnd c r d) =
     (if jgt (tradeValue r) WHALE_THRESHOLD
      then onWhaleDetected rnd (whale_now c) r (metrics d) else metrics d)"
  by (simp add: store_trade_def Let_def)

lemma store_trade_volume:
  "aggregatedVolume (store_trade rnd c r d) =
     (if reset_now c - lastVolumeResetTime d > 60000 then Fin 0
      else jadd rnd (aggregatedVolume d) (quantity r))"
  by (simp add: store_trade_def Let_def)

lemma store_trade_resetTime:
  "lastVolumeResetTime (store_trade rnd c r d) =
     (if reset_now c - lastVolumeResetTime d > 60000 then reset_now c
      else lastVolumeResetTime d)"
  by (simp add: store_trade_def Let_def)

lemma push_history_length:
  "length h \<le> MAX_HISTORY \<Longrightarrow> length (push_history r h) \<le> MAX_HISTORY"
  by (auto simp: push_history_def Let_def)

lemma push_history_last: "push_history r h \<noteq> [] \<and> last (push_history r h) = r"
  by (cases h) (auto simp: push_history_def Let_def MAX_HISTORY_def)

lemma push_history_if:
  "push_history r h = (if length h < MAX_HISTORY then h @ [r] else tl h @ [r])"
  by (cases h) (auto simp: push_history_def Let_def MAX_HISTORY_def)

lemma push_history_drop:
  "push_history r (drop (length rs - MAX_HISTORY) rs) =
   drop (length (rs @ [r]) - MAX_HISTORY) (rs @ [r])"
proof (cases "length rs < MAX_HISTORY")
  case True
  then show ?thesis by (simp add: push_history_if)
next
  case False
  then have len: "length (drop (length rs - MAX_HISTORY) rs) = MAX_HISTORY" by simp
  have "push_history r (drop (length rs - MAX_HISTORY) rs) =
        tl (drop (length rs - MAX_HISTORY) rs) @ [r]"
    using len by (simp add: push_history_if)
  also have "tl (drop (length rs - MAX_HISTORY) rs) = drop (Suc (length rs - MAX_HISTORY)) rs"
    by (simp add: drop_Suc tl_drop)
  also have "Suc (length rs - MAX_HISTORY) = length (rs @ [r]) - MAX_HISTORY"
    using False by simp
  also have "drop (length (rs @ [r]) - MAX_HISTORY) rs @ [r] =
             drop (length (rs @ [r]) - MAX_HISTORY) (rs @ [r])"
    using False by (simp add: MAX_HISTORY_def)
  finally show ?thesis .
qed

lemma process_all_snoc:
  "process_all rnd pf (crs @ [cr]) d =
     (case processTrade rnd pf (fst cr) (snd cr) (process_all rnd pf crs d) of
        Inl e \<Rightarrow> process_all rnd pf crs d
      | Inr rd \<Rightarrow> snd rd)"
  by (induction crs arbitrary: d) (simp_all split: sum.splits)

lemma records_snoc:
  "records rnd pf (crs @ [cr]) =
     records rnd pf crs @
       (case parse_trade pf (snd cr) of
          Inl e \<Rightarrow> []
        | Inr parsed \<Rightarrow> [make_record rnd (fst cr) parsed])"
  by (induction crs) (simp_all split: sum.splits)

lemma process_all_step:
  "process_all rnd pf (crs @ [cr]) d =
     (case parse_trade pf (snd cr) of
        Inl e \<Rightarrow> process_all rnd pf crs d
      | Inr parsed \<Rightarrow>
          store_trade rnd (fst cr) (make_record rnd (fst cr) parsed) (process_all rnd pf crs d))"
  by (simp add: process_all_snoc processTrade_def Let_def split: sum.splits)

lemma process_all_history:
  "tradeHistory (process_all rnd pf crs (new_detector t0)) =
     drop (length (records rnd pf crs) - MAX_HISTORY) (records rnd pf crs)"
proof (induction crs rule: rev_induct)
  case Nil
  then show ?case by (simp add: new_detector_def)
next
  case (snoc cr crs)
  show ?case
  proof (cases "parse_trade pf (snd cr)")
    case (Inl e)
    then show ?thesis using snoc.IH by (simp add: process_all_step records_snoc)
  next
    case (Inr parsed)
    let ?rs = "records rnd pf crs"
    let ?r = "make_record rnd (fst cr) parsed"
    have "tradeHistory (process_all rnd pf (crs @ [cr]) (new_detector t0)) =
          push_history ?r (drop (length ?rs - MAX_HISTORY) ?rs)"
      using Inr by (simp add: process_all_step store_trade_history snoc.IH)
    also have "\<dots> = drop (length (?rs @ [?r]) - MAX_HISTORY) (?rs @ [?r])"
      by (rule push_history_drop)
    finally show ?thesis using Inr by (simp add: records_snoc)
  qed
qed

lemma process_all_lastPrice:
  "records rnd pf crs \<noteq> [] \<Longrightarrow>
     lastPrice (process_all rnd pf crs d) = price (last (records rnd pf crs))"
proof (induction crs rule: rev_induct)
  case Nil
  then show ?case by simp
next
  case (snoc cr crs)
  show ?case
  proof (cases "parse_trade pf (snd cr)")
    case (Inl e)
    then show ?thesis using snoc by (simp add: process_all_step records_snoc)
  next
    case (Inr parsed)
    then show ?thesis by (simp add: process_all_step records_snoc store_trade_lastPrice)
  qed
qed

lemma jmul_NaN: "jmul rnd a NaN = NaN" "jmul rnd NaN a = NaN"
  by (cases a; simp)+

section \<open>Whale classification\<close>

text \<open>
  Claim C1. For every call of \<open>processTrade\<close> that returns, the record carries the
  parsed price and quantity, its notional value is their product as the language computes
  it, and its \<open>isWhale\<close> flag is the comparison of that value with 500000: for a finite
  value it is true exactly when the value exceeds 500000, and a value equal to the
  threshold is no whale. In the witness the product of the doubles 0.1 and 5000000 is
  500000 after rounding, though above it before: the trade is no whale.
\<close>

theorem processTrade_isWhale:
  "processTrade rnd pf c raw d = Inr (r, d') \<Longrightarrow>
     tradeValue r = jmul rnd (price r) (quantity r)
     \<and> isWhale r = jgt (tradeValue r) (Fin 500000)
     \<and> (tradeValue r = Fin v \<longrightarrow> isWhale r = (500000 < v))
     \<and> (tradeValue r = Fin 500000 \<longrightarrow> \<not> isWhale r)
     \<and> (raw = Some t \<longrightarrow> pf (p t) = Inr (price r) \<and> pf (q t) = Inr (quantity r))"
  by (auto simp: processTrade_Inr parse_trade_Inr make_record_fields WHALE_THRESHOLD_def)

theorem processTrade_isWhale_witness:
  "processTrade
     (ieee_on [(3602879701896397 / 36028797018963968 * 5000000, 500000)]) Inr
     \<lparr>stamp_now = 5, whale_now = 6, reset_now = 7\<rparr>
     (Some \<lparr>p = Fin (3602879701896397 / 36028797018963968), q = Fin 5000000, T = Some 3\<rparr>)
     (new_detector 0)
   = Inr (\<lparr>price = Fin (3602879701896397 / 36028797018963968), quantity = Fin 5000000,
           tradeValue = Fin 500000, timestamp = 3, isWhale = False\<rparr>,
          \<lparr>tradeHistory =
             [\<lparr>price = Fin (3602879701896397 / 36028797018963968), quantity = Fin 5000000,
               tradeValue = Fin 500000, timestamp = 3, isWhale = False\<rparr>],
           lastPrice = Fin (3602879701896397 / 36028797018963968),
           aggregatedVolume = Fin 5000000, lastVolumeResetTime = 0,
           metrics = initial_metrics\<rparr>)
   \<and> (500000::real) < 3602879701896397 / 36028797018963968 * 5000000
   \<and> \<not> isWhale \<lparr>price = Fin (3602879701896397 / 36028797018963968), quantity = Fin 5000000,
           tradeValue = Fin 500000, timestamp = 3, isWhale = False\<rparr>"
proof -
  define r where "r = \<lparr>price = Fin (3602879701896397 / 36028797018963968),
     quantity = Fin 5000000, tradeValue = Fin 500000, timestamp = 3, isWhale = False\<rparr>"
  define d' where "d' = \<lparr>tradeHistory = [r],
     lastPrice = Fin (3602879701896397 / 36028797018963968),
     aggregatedVolume = Fin 5000000, lastVolumeResetTime = 0, metrics = initial_metrics\<rparr>"
  have run: "processTrade
     (ieee_on [(3602879701896397 / 36028797018963968 * 5000000, 500000)]) Inr
     \<lparr>stamp_now = 5, whale_now = 6, reset_now = 7\<rparr>
     (Some \<lparr>p = Fin (3602879701896397 / 36028797018963968), q = Fin 5000000, T = Some 3\<rparr>)
     (new_detector 0) = Inr (r, d')"
    unfolding r_def d'_def by (simp add: run_defs)
  have tv: "tradeValue r = Fin 500000" by (simp add: r_def)
  from processTrade_isWhale [OF run] tv have "\<not> isWhale r" by blast
  moreover have "(500000::real) < 3602879701896397 / 36028797018963968 * 5000000" by simp
  ultimately show ?thesis using run unfolding r_def d'_def by blast
qed

section \<open>The rolling history\<close>

text \<open>
  Claim C2. After any finite sequence of \<open>processTrade\<close> calls on a fresh instance the
  history has at most 3600 entries: it holds the last 3600 records that the calls
  returned, in the order of arrival. A call that returns appends its record and, when
  3600 records were stored already, drops the oldest one: the record that was second is
  then the first.
\<close>

theorem history_bounded_fifo:
  "length (tradeHistory (process_all rnd pf crs (new_detector t0))) \<le> 3600
   \<and> tradeHistory (process_all rnd pf crs (new_detector t0)) =
       drop (length (records rnd pf crs) - 3600) (records rnd pf crs)
   \<and> (processTrade rnd pf c raw d = Inr (r, d') \<longrightarrow>
       tradeHistory d' =
         (if length (tradeHistory d) < 3600 then tradeHistory d @ [r]
          else tl (tradeHistory d) @ [r]))"
proof -
  have eq: "tradeHistory (process_all rnd pf crs (new_detector t0)) =
       drop (length (records rnd pf crs) - 3600) (records rnd pf crs)"
    using process_all_history [of rnd pf crs t0] by (simp add: MAX_HISTORY_def)
  have bound: "length (tradeHistory (process_all rnd pf crs (new_detector t0))) \<le> 3600"
    unfolding eq by simp
  have step: "tradeHistory d' =
         (if length (tradeHistory d) < 3600 then tradeHistory d @ [r]
          else tl (tradeHistory d) @ [r])"
    if "processTrade rnd pf c raw d = Inr (r, d')"
    using that
    by (auto simp: processTrade_Inr store_trade_history push_history_if MAX_HISTORY_def)
  from bound eq step show ?thesis by blast
qed

theorem history_bounded_fifo_witness:
  "processTrade (ieee_on []) Inr \<lparr>stamp_now = 5, whale_now = 6, reset_now = 7\<rparr>
     (Some \<lparr>p = Fin 100, q = Fin 2, T = Some 3\<rparr>)
     ((new_detector 0)\<lparr>tradeHistory := replicate 3600
        \<lparr>price = Fin 1, quantity = Fin 1, tradeValue = Fin 1, timestamp = 1, isWhale = False\<rparr>\<rparr>)
   = Inr (\<lparr>price = Fin 100, quantity = Fin 2, tradeValue = Fin 200, timestamp = 3,
            isWhale = False\<rparr>,
          store_trade (ieee_on []) \<lparr>stamp_now = 5, whale_now = 6, reset_now = 7\<rparr>
            \<lparr>price = Fin 100, quantity = Fin 2, tradeValue = Fin 200, timestamp = 3,
              isWhale = False\<rparr>
            ((new_detector 0)\<lparr>tradeHistory := replicate 3600
               \<lparr>price = Fin 1, quantity = Fin 1, tradeValue = Fin 1, timestamp = 1,
                 isWhale = False\<rparr>\<rparr>))
   \<and> tradeHistory (store_trade (ieee_on []) \<lparr>stamp_now = 5, whale_now = 6, reset_now = 7\<rparr>
            \<lparr>price = Fin 100, quantity = Fin 2, tradeValue = Fin 200, timestamp = 3,
              isWhale = False\<rparr>
            ((new_detector 0)\<lparr>tradeHistory := replicate 3600
               \<lparr>price = Fin 1, quantity = Fin 1, tradeValue = Fin 1, timestamp = 1,
                 isWhale = False\<rparr>\<rparr>))
       = replicate 3599
           \<lparr>price = Fin 1, quantity = Fin 1, tradeValue = Fin 1, timestamp = 1, isWhale = False\<rparr>
         @ [\<lparr>price = Fin 100, quantity = Fin 2, tradeValue = Fin 200, timestamp = 3,
             isWhale = False\<rparr>]"
proof -
  define old where "old =
    \<lparr>price = Fin 1, quantity = Fin 1, tradeValue = Fin 1, timestamp = 1, isWhale = False\<rparr>"
  define r where "r =
    \<lparr>price = Fin 100, quantity = Fin 2, tradeValue = Fin 200, timestamp = 3, isWhale = False\<rparr>"
  define c where "c = \<lparr>stamp_now = 5, whale_now = 6, reset_now = 7\<rparr>"
  define d where "d = (new_detector 0)\<lparr>tradeHistory := replicate 3600 old\<rparr>"
  have run: "processTrade (ieee_on []) Inr c (Some \<lparr>p = Fin 100, q = Fin 2, T = Some 3\<rparr>) d
      = Inr (r, store_trade (ieee_on []) c r d)"
    unfolding r_def c_def
    by (simp add: processTrade_def parse_trade_def make_record_def timestamp_or_now_def
          WHALE_THRESHOLD_def ieee_on_def Let_def)
  have len: "length (tradeHistory d) = 3600" by (simp add: d_def)
  have tl: "tl (tradeHistory d) = replicate 3599 old"
    by (simp add: d_def tl_replicate)
  from history_bounded_fifo [where rnd = "ieee_on []" and pf = Inr and c = c
      and raw = "Some \<lparr>p = Fin 100, q = Fin 2, T = Some 3\<rparr>" and d = d and r = r
      and d' = "store_trade (ieee_on []) c r d"] run
  have "tradeHistory (store_trade (ieee_on []) c r d) =
          (if length (tradeHistory d) < 3600 then tradeHistory d @ [r]
           else tl (tradeHistory d) @ [r])"
    by blast
  then have "tradeHistory (store_trade (ieee_on []) c r d) = replicate 3599 old @ [r]"
    by (simp add: len tl)
  with run show ?thesis unfolding old_def r_def c_def d_def by blast
qed

section \<open>Records that do not parse\<close>

text \<open>
  Claim C3, as the code has it. \<open>processTrade\<close> validates nothing. It throws only
  where the language does: a \<open>TypeError\<close> when the argument is \<open>null\<close> or
  \<open>undefined\<close>, and whatever \<open>parseFloat\<close> throws on the price or on the quantity
  field; this happens before any assignment, so the state is as before and later calls
  work. Whenever \<open>parseFloat\<close> returns for both fields, whatever the two numbers are,
  the call returns a record with these values and appends it to the history as its
  newest entry. When one of the two is \<open>NaN\<close>, the notional value is \<open>NaN\<close>, the
  record is no whale and the metrics stay as they were.
\<close>

theorem processTrade_no_validation:
  "processTrade rnd pf c None d = Inl TypeError
   \<and> (pf (p t) = Inl e \<longrightarrow> processTrade rnd pf c (Some t) d = Inl e)
   \<and> (pf (p t) = Inr x \<and> pf (q t) = Inl e \<longrightarrow> processTrade rnd pf c (Some t) d = Inl e)
   \<and> (pf (p t) = Inr x \<and> pf (q t) = Inr y \<longrightarrow>
        processTrade rnd pf c (Some t) d =
          Inr (make_record rnd c (x, y, T t),
               store_trade rnd c (make_record rnd c (x, y, T t)) d)
        \<and> price (make_record rnd c (x, y, T t)) = x
        \<and> quantity (make_record rnd c (x, y, T t)) = y
        \<and> tradeValue (make_record rnd c (x, y, T t)) = jmul rnd x y
        \<and> tradeHistory (store_trade rnd c (make_record rnd c (x, y, T t)) d) \<noteq> []
        \<and> last (tradeHistory (store_trade rnd c (make_record rnd c (x, y, T t)) d))
            = make_record rnd c (x, y, T t)
        \<and> (x = NaN \<or> y = NaN \<longrightarrow>
             tradeValue (make_record rnd c (x, y, T t)) = NaN
             \<and> \<not> isWhale (make_record rnd c (x, y, T t))
             \<and> metrics (store_trade rnd c (make_record rnd c (x, y, T t)) d) = metrics d))"
proof -
  have a: "processTrade rnd pf c None d = Inl TypeError"
    by (simp add: processTrade_def parse_trade_def)
  have b: "pf (p t) = Inl e \<Longrightarrow> processTrade rnd pf c (Some t) d = Inl e"
    by (simp add: processTrade_def parse_trade_def)
  have c: "pf (p t) = Inr x \<and> pf (q t) = Inl e \<Longrightarrow> processTrade rnd pf c (Some t) d = Inl e"
    by (simp add: processTrade_def parse_trade_def)
  have d1: "pf (p t) = Inr x \<and> pf (q t) = Inr y \<Longrightarrow>
        processTrade rnd pf c (Some t) d =
          Inr (make_record rnd c (x, y, T t),
               store_trade rnd c (make_record rnd c (x, y, T t)) d)"
    by (simp add: processTrade_def parse_trade_def Let_def)
  have d2: "price (make_record rnd c (x, y, T t)) = x"
    "quantity (make_record rnd c (x, y, T t)) = y"
    "tradeValue (make_record rnd c (x, y, T t)) = jmul rnd x y"
    by (simp_all add: make_record_fields)
  have d3: "tradeHistory (store_trade rnd c (make_record rnd c (x, y, T t)) d) \<noteq> []"
    "last (tradeHistory (store_trade rnd c (make_record rnd c (x, y, T t)) d))
            = make_record rnd c (x, y, T t)"
    by (simp_all add: store_trade_history push_history_last)
  have d4: "x = NaN \<or> y = NaN \<Longrightarrow>
             tradeValue (make_record rnd c (x, y, T t)) = NaN
             \<and> \<not> isWhale (make_record rnd c (x, y, T t))
             \<and> metrics (store_trade rnd c (make_record rnd c (x, y, T t)) d) = metrics d"
    by (auto simp: make_record_fields store_trade_metrics jmul_NaN)
  from a b c d1 d2 d3 d4 show ?thesis by blast
qed

theorem processTrade_no_validation_witness:
  "processTrade (ieee_on []) (\<lambda>v. case v of None \<Rightarrow> Inl TypeError | Some z \<Rightarrow> Inr z)
       \<lparr>stamp_now = 5, whale_now = 6, reset_now = 7\<rparr>
       (Some \<lparr>p = None, q = Some (Fin 1), T = Some 3\<rparr>) (new_detector 0) = Inl TypeError
   \<and> processTrade (ieee_on []) (\<lambda>v. case v of None \<Rightarrow> Inl TypeError | Some z \<Rightarrow> Inr z)
       \<lparr>stamp_now = 5, whale_now = 6, reset_now = 7\<rparr>
       (Some \<lparr>p = Some (Fin 1), q = None, T = Some 3\<rparr>) (new_detector 0) = Inl TypeError
   \<and> processTrade (ieee_on []) (\<lambda>v. case v of None \<Rightarrow> Inl TypeError | Some z \<Rightarrow> Inr z)
       \<lparr>stamp_now = 5, whale_now = 6, reset_now = 7\<rparr>
       (Some \<lparr>p = Some NaN, q = Some (Fin 1), T = Some 3\<rparr>) (new_detector 0)
     = Inr (\<lparr>price = NaN, quantity = Fin 1, tradeValue = NaN, timestamp = 3, isWhale = False\<rparr>,
        \<lparr>tradeHistory =
           [\<lparr>price = NaN, quantity = Fin 1, tradeValue = NaN, timestamp = 3, isWhale = False\<rparr>],
         lastPrice = NaN, aggregatedVolume = Fin 1, lastVolumeResetTime = 0,
         metrics = initial_metrics\<rparr>)"
proof -
  define pf :: "number option \<Rightarrow> error + number"
    where "pf = (\<lambda>v. case v of None \<Rightarrow> Inl TypeError | Some z \<Rightarrow> Inr z)"
  define c where "c = \<lparr>stamp_now = 5, whale_now = 6, reset_now = 7\<rparr>"
  define t1 :: "number option raw_trade" where "t1 = \<lparr>p = None, q = Some (Fin 1), T = Some 3\<rparr>"
  define t2 :: "number option raw_trade" where "t2 = \<lparr>p = Some (Fin 1), q = None, T = Some 3\<rparr>"
  define t3 :: "number option raw_trade" where "t3 = \<lparr>p = Some NaN, q = Some (Fin 1), T = Some 3\<rparr>"
  have h1: "pf (p t1) = Inl TypeError" by (simp add: pf_def t1_def)
  have h2: "pf (p t2) = Inr (Fin 1) \<and> pf (q t2) = Inl TypeError" by (simp add: pf_def t2_def)
  have h3: "pf (p t3) = Inr NaN \<and> pf (q t3) = Inr (Fin 1)" by (simp add: pf_def t3_def)
  from processTrade_no_validation [of "ieee_on []" pf c "new_detector 0" t1 TypeError] h1
  have r1: "processTrade (ieee_on []) pf c (Some t1) (new_detector 0) = Inl TypeError"
    by blast
  from processTrade_no_validation [of "ieee_on []" pf c "new_detector 0" t2 TypeError "Fin 1"] h2
  have r2: "processTrade (ieee_on []) pf c (Some t2) (new_detector 0) = Inl TypeError"
    by blast
  from processTrade_no_validation [of "ieee_on []" pf c "new_detector 0" t3 TypeError NaN "Fin 1"] h3
  have "processTrade (ieee_on []) pf c (Some t3) (new_detector 0) =
          Inr (make_record (ieee_on []) c (NaN, Fin 1, T t3),
               store_trade (ieee_on []) c (make_record (ieee_on []) c (NaN, Fin 1, T t3))
                 (new_detector 0))"
    by blast
  then have r3: "processTrade (ieee_on []) pf c (Some t3) (new_detector 0) =
     Inr (\<lparr>price = NaN, quantity = Fin 1, tradeValue = NaN, timestamp = 3, isWhale = False\<rparr>,
        \<lparr>tradeHistory =
           [\<lparr>price = NaN, quantity = Fin 1, tradeValue = NaN, timestamp = 3, isWhale = False\<rparr>],
         lastPrice = NaN, aggregatedVolume = Fin 1, lastVolumeResetTime = 0,
         metrics = initial_metrics\<rparr>)"
    by (simp add: t3_def c_def run_defs)
  from r1 r2 r3 show ?thesis unfolding pf_def c_def t1_def t2_def t3_def by blast
qed

text \<open>
  Claim C3, as the specification states it, fails: a record whose price is no number is
  not refused. On a fresh instance the call returns a record with price \<open>NaN\<close> and
  stores it in the history; so it does with a negative price and an infinite quantity.
\<close>

theorem malformed_record_accepted:
  "processTrade (ieee_on []) Inr \<lparr>stamp_now = 5, whale_now = 6, reset_now = 7\<rparr>
       (Some \<lparr>p = NaN, q = Fin 1, T = Some 3\<rparr>) (new_detector 0)
   = Inr (\<lparr>price = NaN, quantity = Fin 1, tradeValue = NaN, timestamp = 3, isWhale = False\<rparr>,
      \<lparr>tradeHistory =
         [\<lparr>price = NaN, quantity = Fin 1, tradeValue = NaN, timestamp = 3, isWhale = False\<rparr>],
       lastPrice = NaN, aggregatedVolume = Fin 1, lastVolumeResetTime = 0,
       metrics = initial_metrics\<rparr>)
   \<and> processTrade (ieee_on []) Inr \<lparr>stamp_now = 5, whale_now = 6, reset_now = 7\<rparr>
       (Some \<lparr>p = Fin (- 5), q = PInf, T = Some 3\<rparr>) (new_detector 0)
   = Inr (\<lparr>price = Fin (- 5), quantity = PInf, tradeValue = NInf, timestamp = 3,
           isWhale = False\<rparr>,
      \<lparr>tradeHistory =
         [\<lparr>price = Fin (- 5), quantity = PInf, tradeValue = NInf, timestamp = 3,
           isWhale = False\<rparr>],
       lastPrice = Fin (- 5), aggregatedVolume = PInf, lastVolumeResetTime = 0,
       metrics = initial_metrics\<rparr>)"
  by (simp add: run_defs signed_inf_def)

section \<open>Whale metrics\<close>

text \<open>
  Claim C8. The trades (100, 1) and (600000, 1) on a fresh instance leave
  \<open>whaleCount = 1\<close> and \<open>maxWhaleAmount = 600000\<close>; the two products are doubles, so
  the rounding leaves them as they are. After every whale detection
  \<open>averageWhaleSize\<close> is \<open>maxWhaleAmount / whaleCount\<close>, for \<open>onWhaleDetected\<close> itself
  and for a call of \<open>processTrade\<close> that classifies its trade as a whale.
\<close>

theorem whale_metrics:
  "(rnd 100 = Fin 100 \<and> rnd 600000 = Fin 600000
      \<and> pf (p ta) = Inr (Fin 100) \<and> pf (q ta) = Inr (Fin 1)
      \<and> pf (p tb) = Inr (Fin 600000) \<and> pf (q tb) = Inr (Fin 1) \<longrightarrow>
      whaleCount (metrics (process_all rnd pf [(c1, Some ta), (c2, Some tb)] (new_detector t0))) = 1
      \<and> maxWhaleAmount (metrics (process_all rnd pf [(c1, Some ta), (c2, Some tb)]
           (new_detector t0))) = Fin 600000)
   \<and> averageWhaleSize (onWhaleDetected rnd now tr m) =
       jdiv rnd (maxWhaleAmount (onWhaleDetected rnd now tr m))
            (Fin (real (whaleCount (onWhaleDetected rnd now tr m))))
   \<and> (processTrade rnd pf c raw d = Inr (r, d') \<and> isWhale r \<longrightarrow>
        whaleCount (metrics d') = whaleCount (metrics d) + 1
        \<and> averageWhaleSize (metrics d') =
            jdiv rnd (maxWhaleAmount (metrics d')) (Fin (real (whaleCount (metrics d')))))"
proof -
  have seq: "whaleCount (metrics (process_all rnd pf [(c1, Some ta), (c2, Some tb)]
           (new_detector t0))) = 1
      \<and> maxWhaleAmount (metrics (process_all rnd pf [(c1, Some ta), (c2, Some tb)]
           (new_detector t0))) = Fin 600000"
    if h: "rnd 100 = Fin 100 \<and> rnd 600000 = Fin 600000
      \<and> pf (p ta) = Inr (Fin 100) \<and> pf (q ta) = Inr (Fin 1)
      \<and> pf (p tb) = Inr (Fin 600000) \<and> pf (q tb) = Inr (Fin 1)"
  proof -
    have pa: "parse_trade pf (Some ta) = Inr (Fin 100, Fin 1, T ta)"
      and pb: "parse_trade pf (Some tb) = Inr (Fin 600000, Fin 1, T tb)"
      using h by (simp_all add: parse_trade_def)
    have "metrics (process_all rnd pf [(c1, Some ta), (c2, Some tb)] (new_detector t0)) =
      \<lparr>totalVolume24h = Fin 0, whaleCount = 1, maxWhaleAmount = Fin 600000,
       lastWhaleTime = Some (whale_now c2), averageWhaleSize = rnd 600000\<rparr>"
      using h
      by (simp add: processTrade_def pa pb store_trade_metrics make_record_fields
            WHALE_THRESHOLD_def onWhaleDetected_def new_detector_def initial_metrics_def
            jmax_def Let_def)
    then show ?thesis by simp
  qed
  have avg: "averageWhaleSize (onWhaleDetected rnd now tr m) =
       jdiv rnd (maxWhaleAmount (onWhaleDetected rnd now tr m))
            (Fin (real (whaleCount (onWhaleDetected rnd now tr m))))" for now tr m
    by (simp add: onWhaleDetected_def Let_def)
  have cnt: "whaleCount (onWhaleDetected rnd now tr m) = whaleCount m + 1" for now tr m
    by (simp add: onWhaleDetected_def Let_def)
  have whale: "metrics d' = onWhaleDetected rnd (whale_now c) r (metrics d)"
    if "processTrade rnd pf c raw d = Inr (r, d') \<and> isWhale r"
    using that
    by (auto simp: processTrade_Inr store_trade_metrics make_record_fields)
  show ?thesis
    using seq avg whale cnt by simp
qed

theorem whale_metrics_witness:
  "ieee_on [] 100 = Fin 100 \<and> ieee_on [] 600000 = Fin 600000
   \<and> process_all (ieee_on []) Inr
        [(\<lparr>stamp_now = 5, whale_now = 6, reset_now = 7\<rparr>,
          Some \<lparr>p = Fin 100, q = Fin 1, T = None\<rparr>),
         (\<lparr>stamp_now = 8, whale_now = 9, reset_now = 10\<rparr>,
          Some \<lparr>p = Fin 600000, q = Fin 1, T = None\<rparr>)]
        (new_detector 0)
      = \<lparr>tradeHistory =
           [\<lparr>price = Fin 100, quantity = Fin 1, tradeValue = Fin 100, timestamp = 5,
             isWhale = False\<rparr>,
            \<lparr>price = Fin 600000, quantity = Fin 1, tradeValue = Fin 600000, timestamp = 8,
             isWhale = True\<rparr>],
         lastPrice = Fin 600000, aggregatedVolume = Fin 2, lastVolumeResetTime = 0,
         metrics = \<lparr>totalVolume24h = Fin 0, whaleCount = 1, maxWhaleAmount = Fin 600000,
                    lastWhaleTime = Some 9, averageWhaleSize = Fin 600000\<rparr>\<rparr>"
proof -
  define c1 where "c1 = \<lparr>stamp_now = 5, whale_now = 6, reset_now = 7\<rparr>"
  define c2 where "c2 = \<lparr>stamp_now = 8, whale_now = 9, reset_now = 10\<rparr>"
  define ta :: "number raw_trade" where "ta = \<lparr>p = Fin 100, q = Fin 1, T = None\<rparr>"
  define tb :: "number raw_trade" where "tb = \<lparr>p = Fin 600000, q = Fin 1, T = None\<rparr>"
  define d where "d = process_all (ieee_on []) Inr [(c1, Some ta), (c2, Some tb)] (new_detector 0)"
  have h: "ieee_on [] 100 = Fin 100 \<and> ieee_on [] 600000 = Fin 600000
      \<and> Inr (p ta) = (Inr (Fin 100) :: error + number) \<and> Inr (q ta) = (Inr (Fin 1) :: error + number)
      \<and> Inr (p tb) = (Inr (Fin 600000) :: error + number)
      \<and> Inr (q tb) = (Inr (Fin 1) :: error + number)"
    by (simp add: ieee_on_def ta_def tb_def)
  from whale_metrics [where rnd = "ieee_on []" and pf = Inr and ta = ta and tb = tb
      and ?c1.0 = c1 and ?c2.0 = c2 and ?t0.0 = 0] h
  have m: "whaleCount (metrics d) = 1 \<and> maxWhaleAmount (metrics d) = Fin 600000"
    unfolding d_def by blast
  have rest: "tradeHistory d =
           [\<lparr>price = Fin 100, quantity = Fin 1, tradeValue = Fin 100, timestamp = 5,
             isWhale = False\<rparr>,
            \<lparr>price = Fin 600000, quantity = Fin 1, tradeValue = Fin 600000, timestamp = 8,
             isWhale = True\<rparr>]"
    "lastPrice d = Fin 600000" "aggregatedVolume d = Fin 2" "lastVolumeResetTime d = 0"
    "totalVolume24h (metrics d) = Fin 0" "lastWhaleTime (metrics d) = Some 9"
    "averageWhaleSize (metrics d) = Fin 600000"
    unfolding d_def c1_def c2_def ta_def tb_def by (simp_all add: run_defs)
  have "d = \<lparr>tradeHistory =
           [\<lparr>price = Fin 100, quantity = Fin 1, tradeValue = Fin 100, timestamp = 5,
             isWhale = False\<rparr>,
            \<lparr>price = Fin 600000, quantity = Fin 1, tradeValue = Fin 600000, timestamp = 8,
             isWhale = True\<rparr>],
         lastPrice = Fin 600000, aggregatedVolume = Fin 2, lastVolumeResetTime = 0,
         metrics = \<lparr>totalVolume24h = Fin 0, whaleCount = 1, maxWhaleAmount = Fin 600000,
                    lastWhaleTime = Some 9, averageWhaleSize = Fin 600000\<rparr>\<rparr>"
    using m rest by (cases d, cases "metrics d") simp
  with h show ?thesis unfolding d_def c1_def c2_def ta_def tb_def by blast
qed

section \<open>What reset leaves\<close>

text \<open>
  Claim C9. After at least one processed trade, \<open>reset\<close> followed by \<open>getMetrics\<close>
  gives a snapshot whose \<open>currentPrice\<close> is the price of the last trade processed,
  that is the parsed price field of the last call that returned; the whale count and the
  maximum are back at zero and the history is empty.
\<close>

theorem reset_keeps_lastPrice:
  "(records rnd pf crs \<noteq> [] \<longrightarrow>
      currentPrice (getMetrics toFixed (reset (process_all rnd pf crs d)))
        = price (last (records rnd pf crs))
      \<and> whaleCount (getMetrics toFixed (reset (process_all rnd pf crs d))) = 0
      \<and> maxWhaleAmount (getMetrics toFixed (reset (process_all rnd pf crs d))) = Fin 0
      \<and> tradeHistory (reset (process_all rnd pf crs d)) = [])
   \<and> (pf (p t) = Inr x \<and> pf (q t) = Inr y \<longrightarrow>
      currentPrice (getMetrics toFixed (reset (process_all rnd pf (crs @ [(c, Some t)]) d))) = x)"
proof -
  have a: "currentPrice (getMetrics toFixed (reset (process_all rnd pf crs d)))
        = price (last (records rnd pf crs))
      \<and> whaleCount (getMetrics toFixed (reset (process_all rnd pf crs d))) = 0
      \<and> maxWhaleAmount (getMetrics toFixed (reset (process_all rnd pf crs d))) = Fin 0
      \<and> tradeHistory (reset (process_all rnd pf crs d)) = []"
    if "records rnd pf crs \<noteq> []"
    using that by (simp add: getMetrics_def reset_def initial_metrics_def process_all_lastPrice)
  have b: "currentPrice (getMetrics toFixed (reset (process_all rnd pf (crs @ [(c, Some t)]) d))) = x"
    if h: "pf (p t) = Inr x \<and> pf (q t) = Inr y"
  proof -
    have "parse_trade pf (Some t) = Inr (x, y, T t)"
      using h by (simp add: parse_trade_def)
    then show ?thesis
      by (simp add: getMetrics_def reset_def process_all_step store_trade_lastPrice
            make_record_fields)
  qed
  from a b show ?thesis by blast
qed

theorem reset_keeps_lastPrice_witness:
  "records (ieee_on []) Inr
      [(\<lparr>stamp_now = 5, whale_now = 6, reset_now = 7\<rparr>, Some \<lparr>p = Fin 100, q = Fin 1, T = None\<rparr>)]
     = [\<lparr>price = Fin 100, quantity = Fin 1, tradeValue = Fin 100, timestamp = 5,
         isWhale = False\<rparr>]
   \<and> currentPrice (getMetrics (\<lambda>n x. []) (reset (process_all (ieee_on []) Inr
        [(\<lparr>stamp_now = 5, whale_now = 6, reset_now = 7\<rparr>, Some \<lparr>p = Fin 100, q = Fin 1, T = None\<rparr>)]
        (new_detector 0)))) = Fin 100
   \<and> Fin 100 \<noteq> Fin 0"
proof -
  define crs :: "(clock \<times> number raw_trade option) list" where "crs =
    [(\<lparr>stamp_now = 5, whale_now = 6, reset_now = 7\<rparr>, Some \<lparr>p = Fin 100, q = Fin 1, T = None\<rparr>)]"
  have r: "records (ieee_on []) Inr crs =
     [\<lparr>price = Fin 100, quantity = Fin 1, tradeValue = Fin 100, timestamp = 5, isWhale = False\<rparr>]"
    unfolding crs_def by (simp add: run_defs)
  then have ne: "records (ieee_on []) Inr crs \<noteq> []" by simp
  from reset_keeps_lastPrice [where rnd = "ieee_on []" and pf = Inr and crs = crs
      and toFixed = "\<lambda>n x. []" and d = "new_detector 0"] ne
  have "currentPrice (getMetrics (\<lambda>n x. []) (reset (process_all (ieee_on []) Inr crs
          (new_detector 0)))) = price (last (records (ieee_on []) Inr crs))"
    by blast
  then have "currentPrice (getMetrics (\<lambda>n x. []) (reset (process_all (ieee_on []) Inr crs
          (new_detector 0)))) = Fin 100"
    unfolding r by simp
  with r show ?thesis unfolding crs_def by simp
qed

section \<open>The volume window\<close>

text \<open>
  Claim C10. The quantity is added to the accumulated volume before the check of the
  60 seconds. When more than 60000 ms have passed since the last reset, the call leaves
  the accumulated volume at 0, sets the reset time to the clock reading, and the next
  \<open>getMetrics\<close> formats 0 as \<open>hourlyVolume\<close>: the quantity of the triggering trade is
  lost. Otherwise the volume has grown by the quantity.
\<close>

theorem volume_reset_after_add:
  "processTrade rnd pf c raw d = Inr (r, d') \<Longrightarrow>
   (reset_now c - lastVolumeResetTime d > 60000 \<longrightarrow>
      aggregatedVolume d' = Fin 0
      \<and> lastVolumeResetTime d' = reset_now c
      \<and> hourlyVolume (getMetrics toFixed d') = toFixed 4 (Fin 0))
   \<and> (\<not> reset_now c - lastVolumeResetTime d > 60000 \<longrightarrow>
      aggregatedVolume d' = jadd rnd (aggregatedVolume d) (quantity r)
      \<and> lastVolumeResetTime d' = lastVolumeResetTime d)"
  by (auto simp: processTrade_Inr store_trade_volume store_trade_resetTime getMetrics_def)

theorem volume_reset_after_add_witness:
  "processTrade (ieee_on []) Inr \<lparr>stamp_now = 5, whale_now = 6, reset_now = 60001\<rparr>
        (Some \<lparr>p = Fin 100, q = Fin 3, T = None\<rparr>) (new_detector 0)
     = Inr (\<lparr>price = Fin 100, quantity = Fin 3, tradeValue = Fin 300, timestamp = 5,
             isWhale = False\<rparr>,
            \<lparr>tradeHistory = [\<lparr>price = Fin 100, quantity = Fin 3, tradeValue = Fin 300,
                              timestamp = 5, isWhale = False\<rparr>],
             lastPrice = Fin 100, aggregatedVolume = Fin 0, lastVolumeResetTime = 60001,
             metrics = initial_metrics\<rparr>)
   \<and> reset_now \<lparr>stamp_now = 5, whale_now = 6, reset_now = 60001\<rparr>
        - lastVolumeResetTime (new_detector 0) > 60000
   \<and> processTrade (ieee_on []) Inr \<lparr>stamp_now = 5, whale_now = 6, reset_now = 60000\<rparr>
        (Some \<lparr>p = Fin 100, q = Fin 3, T = None\<rparr>) (new_detector 0)
     = Inr (\<lparr>price = Fin 100, quantity = Fin 3, tradeValue = Fin 300, timestamp = 5,
             isWhale = False\<rparr>,
            \<lparr>tradeHistory = [\<lparr>price = Fin 100, quantity = Fin 3, tradeValue = Fin 300,
                              timestamp = 5, isWhale = False\<rparr>],
             lastPrice = Fin 100, aggregatedVolume = Fin 3, lastVolumeResetTime = 0,
             metrics = initial_metrics\<rparr>)
   \<and> \<not> reset_now \<lparr>stamp_now = 5, whale_now = 6, reset_now = 60000\<rparr>
        - lastVolumeResetTime (new_detector 0) > 60000"
proof -
  define r where "r = \<lparr>price = Fin 100, quantity = Fin 3, tradeValue = Fin 300,
                              timestamp = 5, isWhale = False\<rparr>"
  define c1 where "c1 = \<lparr>stamp_now = 5, whale_now = 6, reset_now = 60001\<rparr>"
  define c2 where "c2 = \<lparr>stamp_now = 5, whale_now = 6, reset_now = 60000\<rparr>"
  define raw :: "number raw_trade option" where "raw = Some \<lparr>p = Fin 100, q = Fin 3, T = None\<rparr>"
  have run1: "processTrade (ieee_on []) Inr c1 raw (new_detector 0)
      = Inr (r, store_trade (ieee_on []) c1 r (new_detector 0))"
    and run2: "processTrade (ieee_on []) Inr c2 raw (new_detector 0)
      = Inr (r, store_trade (ieee_on []) c2 r (new_detector 0))"
    unfolding r_def c1_def c2_def raw_def
    by (simp_all add: processTrade_def parse_trade_def make_record_def timestamp_or_now_def
          WHALE_THRESHOLD_def ieee_on_def Let_def)
  have g1: "reset_now c1 - lastVolumeResetTime (new_detector 0) > 60000"
    and g2: "\<not> reset_now c2 - lastVolumeResetTime (new_detector 0) > 60000"
    by (simp_all add: c1_def c2_def new_detector_def)
  from volume_reset_after_add [OF run1, of "\<lambda>n x. []"] g1
  have v1: "aggregatedVolume (store_trade (ieee_on []) c1 r (new_detector 0)) = Fin 0"
    "lastVolumeResetTime (store_trade (ieee_on []) c1 r (new_detector 0)) = reset_now c1"
    by blast+
  from volume_reset_after_add [OF run2, of "\<lambda>n x. []"] g2
  have v2: "aggregatedVolume (store_trade (ieee_on []) c2 r (new_detector 0))
        = jadd (ieee_on []) (aggregatedVolume (new_detector 0)) (quantity r)"
    "lastVolumeResetTime (store_trade (ieee_on []) c2 r (new_detector 0))
        = lastVolumeResetTime (new_detector 0)"
    by blast+
  have s1: "store_trade (ieee_on []) c1 r (new_detector 0) =
      \<lparr>tradeHistory = [r], lastPrice = Fin 100, aggregatedVolume = Fin 0,
       lastVolumeResetTime = 60001, metrics = initial_metrics\<rparr>"
    using v1 by (cases "store_trade (ieee_on []) c1 r (new_detector 0)")
      (simp add: store_trade_history [of "ieee_on []" c1 r "new_detector 0", simplified]
         c1_def r_def store_trade_def push_history_def new_detector_def WHALE_THRESHOLD_def
         MAX_HISTORY_def ieee_on_def Let_def)
  have s2: "store_trade (ieee_on []) c2 r (new_detector 0) =
      \<lparr>tradeHistory = [r], lastPrice = Fin 100, aggregatedVolume = Fin 3,
       lastVolumeResetTime = 0, metrics = initial_metrics\<rparr>"
    using v2 by (cases "store_trade (ieee_on []) c2 r (new_detector 0)")
      (simp add: c2_def r_def store_trade_def push_history_def new_detector_def
         WHALE_THRESHOLD_def MAX_HISTORY_def ieee_on_def Let_def)
  from run1 run2 g1 g2 show ?thesis
    unfolding s1 s2 unfolding r_def c1_def c2_def raw_def by blast
qed

section \<open>The chart\<close>

subsection \<open>The map of buckets\<close>

lemma map_of_map_set: "map_of (map_set k v al) = (map_of al)(k \<mapsto> v)"
  by (induction al) auto

lemma keys_map_set: "fst ` set (map_set k v al) = insert k (fst ` set al)"
  by (induction al) auto

lemma distinct_map_set: "distinct (map fst (map_set k v al)) = distinct (map fst al)"
  by (induction al) (auto simp: keys_map_set)

lemma map_of_bucket_step:
  "map_of (bucket_step rnd w bs tr) =
     (if timestamp tr \<ge> w
      then (map_of bs)(bucketTime tr \<mapsto>
             (case map_of bs (bucketTime tr) of
                None \<Rightarrow> \<lparr>bucket_price = price tr, totalVolume = jadd rnd (Fin 0) (quantity tr),
                          count = 1, bucket_timestamp = bucketTime tr\<rparr>
              | Some b \<Rightarrow> b\<lparr>totalVolume := jadd rnd (totalVolume b) (quantity tr),
                            bucket_price := price tr, count := count b + 1\<rparr>))
      else map_of bs)"
  by (auto simp: bucket_step_def Let_def map_of_map_set split: option.splits)

lemma distinct_bucket_step:
  "distinct (map fst (bucket_step rnd w bs tr)) = distinct (map fst bs)"
  by (auto simp: bucket_step_def Let_def map_of_map_set distinct_map_set split: option.splits)

lemma members_snoc:
  "members now (h @ [tr]) k =
     members now h k @ (if in_window now tr \<and> bucketTime tr = k then [tr] else [])"
  by (simp add: members_def)

lemma jsum_snoc: "jsum rnd (xs @ [x]) = jadd rnd (jsum rnd xs) x"
  by (simp add: jsum_def)

lemma buckets_fold:
  "distinct (map fst (foldl (bucket_step rnd (now - 3600000)) [] h))
   \<and> map_of (foldl (bucket_step rnd (now - 3600000)) [] h) k =
       (if members now h k = [] then None
        else Some \<lparr>bucket_price = price (last (members now h k)),
                   totalVolume = jsum rnd (map quantity (members now h k)),
                   count = length (members now h k),
                   bucket_timestamp = k\<rparr>)"
proof (induction h arbitrary: k rule: rev_induct)
  case Nil
  then show ?case by (simp add: members_def)
next
  case (snoc tr h)
  let ?bs = "foldl (bucket_step rnd (now - 3600000)) [] h"
  have d: "distinct (map fst (bucket_step rnd (now - 3600000) ?bs tr))"
    using snoc.IH by (simp add: distinct_bucket_step)
  have m: "map_of (bucket_step rnd (now - 3600000) ?bs tr) k =
       (if members now (h @ [tr]) k = [] then None
        else Some \<lparr>bucket_price = price (last (members now (h @ [tr]) k)),
                   totalVolume = jsum rnd (map quantity (members now (h @ [tr]) k)),
                   count = length (members now (h @ [tr]) k),
                   bucket_timestamp = k\<rparr>)"
  proof (cases "in_window now tr \<and> bucketTime tr = k")
    case True
    then have w: "timestamp tr \<ge> now - 3600000" by (simp add: in_window_def)
    show ?thesis
      using True w snoc.IH [of k]
      by (simp add: map_of_bucket_step members_snoc jsum_snoc jsum_def)
  next
    case False
    show ?thesis
    proof (cases "timestamp tr \<ge> now - 3600000")
      case True
      with False have "bucketTime tr \<noteq> k" by (simp add: in_window_def)
      then show ?thesis
        using True False snoc.IH [of k]
        by (simp add: map_of_bucket_step members_snoc)
    next
      case False
      then have "\<not> in_window now tr" by (simp add: in_window_def)
      then show ?thesis
        using False snoc.IH [of k]
        by (simp add: map_of_bucket_step members_snoc)
    qed
  qed
  from d m show ?case by simp
qed


lemma buckets_entry:
  assumes "(k, b) \<in> set (foldl (bucket_step rnd (now - 3600000)) [] h)"
  shows "members now h k \<noteq> []
    \<and> b = \<lparr>bucket_price = price (last (members now h k)),
            totalVolume = jsum rnd (map quantity (members now h k)),
            count = length (members now h k),
            bucket_timestamp = k\<rparr>"
proof -
  let ?bs = "foldl (bucket_step rnd (now - 3600000)) [] h"
  have "distinct (map fst ?bs)" using buckets_fold [of rnd now h k] by simp
  with assms have "map_of ?bs k = Some b" by simp
  then show ?thesis
    using buckets_fold [of rnd now h k] by (simp split: if_splits)
qed

lemma buckets_keys:
  "fst ` set (foldl (bucket_step rnd (now - 3600000)) [] h) =
     bucketTime ` {tr \<in> set h. in_window now tr}"
proof -
  let ?bs = "foldl (bucket_step rnd (now - 3600000)) [] h"
  have "k \<in> fst ` set ?bs \<longleftrightarrow> k \<in> bucketTime ` {tr \<in> set h. in_window now tr}" for k
  proof -
    have "k \<in> fst ` set ?bs \<longleftrightarrow> map_of ?bs k \<noteq> None"
      by (simp add: map_of_eq_None_iff)
    also have "\<dots> \<longleftrightarrow> members now h k \<noteq> []"
      using buckets_fold [of rnd now h k] by simp
    also have "\<dots> \<longleftrightarrow> k \<in> bucketTime ` {tr \<in> set h. in_window now tr}"
      by (auto simp: members_def filter_empty_conv)
    finally show ?thesis .
  qed
  then show ?thesis by blast
qed

lemma buckets_timestamps:
  "map bucket_timestamp (map snd (foldl (bucket_step rnd (now - 3600000)) [] h)) =
   map fst (foldl (bucket_step rnd (now - 3600000)) [] h)"
proof -
  have "bucket_timestamp (snd e) = fst e"
    if "e \<in> set (foldl (bucket_step rnd (now - 3600000)) [] h)" for e
  proof -
    from that have "(fst e, snd e) \<in> set (foldl (bucket_step rnd (now - 3600000)) [] h)" by simp
    from buckets_entry [OF this] have
      "snd e = \<lparr>bucket_price = price (last (members now h (fst e))),
            totalVolume = jsum rnd (map quantity (members now h (fst e))),
            count = length (members now h (fst e)),
            bucket_timestamp = fst e\<rparr>" by simp
    then show ?thesis by (metis bucket.select_convs(4))
  qed
  then show ?thesis by simp
qed

lemma distinct_map_sort_key: "distinct (map f (sort_key f xs)) = distinct (map f xs)"
  by (simp add: distinct_map)

lemma sortedBuckets_unfold:
  "sortedBuckets rnd now h =
     sort_key bucket_timestamp (map snd (foldl (bucket_step rnd (now - 3600000)) [] h))"
  by (simp add: sortedBuckets_def Let_def)

lemma sortedBuckets_sorted:
  "sorted (map bucket_timestamp (sortedBuckets rnd now h))
   \<and> distinct (map bucket_timestamp (sortedBuckets rnd now h))"
proof -
  have "distinct (map fst (foldl (bucket_step rnd (now - 3600000)) [] h))"
    using buckets_fold [of rnd now h 0] by simp
  then show ?thesis
    unfolding sortedBuckets_unfold
    by (simp add: distinct_map_sort_key buckets_timestamps del: map_map)
qed

lemma sortedBuckets_keys:
  "set (map bucket_timestamp (sortedBuckets rnd now h)) =
     bucketTime ` {tr \<in> set h. in_window now tr}"
proof -
  have "set (map bucket_timestamp (sortedBuckets rnd now h)) =
        set (map bucket_timestamp (map snd (foldl (bucket_step rnd (now - 3600000)) [] h)))"
    unfolding sortedBuckets_unfold by (simp only: set_map set_sort)
  also have "\<dots> = fst ` set (foldl (bucket_step rnd (now - 3600000)) [] h)"
    unfolding buckets_timestamps by (simp only: set_map)
  finally show ?thesis by (simp only: buckets_keys)
qed

lemma sortedBuckets_entry:
  assumes "b \<in> set (sortedBuckets rnd now h)"
  shows "b = \<lparr>bucket_price = price (last (members now h (bucket_timestamp b))),
            totalVolume = jsum rnd (map quantity (members now h (bucket_timestamp b))),
            count = length (members now h (bucket_timestamp b)),
            bucket_timestamp = bucket_timestamp b\<rparr>"
proof -
  from assms obtain k where kb: "(k, b) \<in> set (foldl (bucket_step rnd (now - 3600000)) [] h)"
    unfolding sortedBuckets_unfold by auto
  from buckets_entry [OF kb] have eq:
    "b = \<lparr>bucket_price = price (last (members now h k)),
            totalVolume = jsum rnd (map quantity (members now h k)),
            count = length (members now h k),
            bucket_timestamp = k\<rparr>" by simp
  then have "bucket_timestamp b = k" by (metis bucket.select_convs(4))
  with eq show ?thesis by simp
qed

lemma sortedBuckets_price:
  "b \<in> set (sortedBuckets rnd now h) \<Longrightarrow>
     bucket_price b = price (last (members now h (bucket_timestamp b)))"
  using sortedBuckets_entry [of b rnd now h] by (metis bucket.select_convs(1))

lemma sortedBuckets_volume:
  "b \<in> set (sortedBuckets rnd now h) \<Longrightarrow>
     totalVolume b = jsum rnd (map quantity (members now h (bucket_timestamp b)))"
  using sortedBuckets_entry [of b rnd now h] by (metis bucket.select_convs(2))

lemma chrono_last_sorted:
  "sorted (map timestamp (b # trs)) \<Longrightarrow> chrono_last b trs = last (b # trs)"
  by (induction trs arbitrary: b) auto

lemma sorted_members:
  "sorted (map timestamp h) \<Longrightarrow> sorted (map timestamp (members now h k))"
  unfolding members_def by (rule sorted_filter)

lemma bucket_fold_outside:
  "\<forall>tr \<in> set h. timestamp tr < w \<Longrightarrow> foldl (bucket_step rnd w) [] h = []"
  by (induction h rule: rev_induct) (simp_all add: bucket_step_def)

subsection \<open>What getChartData emits\<close>

text \<open>
  Claim C4, as the code has it. For every history and every clock reading \<open>now\<close>, the
  bucket times emitted are sorted ascending, without repetition, and they are the floors
  of the times of the trades in the window. The volume emitted for a bucket is the
  formatted sum of the quantities of the trades of the window that floor into it. The
  price emitted for a bucket is the formatted price of the last of these trades in the
  order of the history, that is, of arrival; when the history is in the order of the
  timestamps, this is the chronologically last trade of the bucket.
\<close>

theorem chart_buckets:
  "sorted (timestamps (getChartData rnd lbl tf now d))
   \<and> distinct (timestamps (getChartData rnd lbl tf now d))
   \<and> set (timestamps (getChartData rnd lbl tf now d)) =
       bucketTime ` {tr \<in> set (tradeHistory d). in_window now tr}
   \<and> volumes (getChartData rnd lbl tf now d) =
       map (\<lambda>k. tf 4 (jsum rnd (map quantity (members now (tradeHistory d) k))))
         (timestamps (getChartData rnd lbl tf now d))
   \<and> prices (getChartData rnd lbl tf now d) =
       map (\<lambda>k. tf 2 (price (last (members now (tradeHistory d) k))))
         (timestamps (getChartData rnd lbl tf now d))
   \<and> labels (getChartData rnd lbl tf now d) = map lbl (timestamps (getChartData rnd lbl tf now d))
   \<and> (sorted (map timestamp (tradeHistory d)) \<longrightarrow>
       prices (getChartData rnd lbl tf now d) =
         map (\<lambda>k. tf 2 (price (chrono_last (hd (members now (tradeHistory d) k))
                                            (tl (members now (tradeHistory d) k)))))
           (timestamps (getChartData rnd lbl tf now d)))"
proof (cases "tradeHistory d = []")
  case True
  then show ?thesis by (simp add: getChartData_def)
next
  case False
  let ?h = "tradeHistory d"
  let ?bs = "sortedBuckets rnd now ?h"
  have ts: "timestamps (getChartData rnd lbl tf now d) = map bucket_timestamp ?bs"
    and vs: "volumes (getChartData rnd lbl tf now d) = map (\<lambda>b. tf 4 (totalVolume b)) ?bs"
    and ps: "prices (getChartData rnd lbl tf now d) = map (\<lambda>b. tf 2 (bucket_price b)) ?bs"
    and ls: "labels (getChartData rnd lbl tf now d) = map (\<lambda>b. lbl (bucket_timestamp b)) ?bs"
    using False by (simp_all add: getChartData_def Let_def)
  have c1: "sorted (timestamps (getChartData rnd lbl tf now d))"
    and c2: "distinct (timestamps (getChartData rnd lbl tf now d))"
    unfolding ts using sortedBuckets_sorted [of rnd now ?h] by simp_all
  have c3: "set (timestamps (getChartData rnd lbl tf now d)) =
       bucketTime ` {tr \<in> set ?h. in_window now tr}"
    unfolding ts by (rule sortedBuckets_keys)
  have c4: "volumes (getChartData rnd lbl tf now d) =
       map (\<lambda>k. tf 4 (jsum rnd (map quantity (members now ?h k))))
         (timestamps (getChartData rnd lbl tf now d))"
    unfolding ts vs by (simp add: sortedBuckets_volume)
  have c5: "prices (getChartData rnd lbl tf now d) =
       map (\<lambda>k. tf 2 (price (last (members now ?h k))))
         (timestamps (getChartData rnd lbl tf now d))"
    unfolding ts ps by (simp add: sortedBuckets_price)
  have c6: "labels (getChartData rnd lbl tf now d) = map lbl (timestamps (getChartData rnd lbl tf now d))"
    unfolding ts ls by simp
  have c7: "prices (getChartData rnd lbl tf now d) =
         map (\<lambda>k. tf 2 (price (chrono_last (hd (members now ?h k)) (tl (members now ?h k)))))
           (timestamps (getChartData rnd lbl tf now d))"
    if srt: "sorted (map timestamp ?h)"
  proof -
    have "chrono_last (hd (members now ?h k)) (tl (members now ?h k)) = last (members now ?h k)"
      if "k \<in> set (timestamps (getChartData rnd lbl tf now d))" for k
    proof -
      from that c3 have ne: "members now ?h k \<noteq> []"
        by (auto simp: members_def filter_empty_conv)
      then have "sorted (map timestamp (hd (members now ?h k) # tl (members now ?h k)))"
        using sorted_members [OF srt, of now k] by simp
      from chrono_last_sorted [OF this] ne show ?thesis by simp
    qed
    then show ?thesis unfolding c5 by simp
  qed
  from c1 c2 c3 c4 c5 c6 c7 show ?thesis by blast
qed

theorem chart_buckets_witness:
  "sorted (map timestamp (tradeHistory (process_all (ieee_on []) Inr
      [(\<lparr>stamp_now = 5, whale_now = 6, reset_now = 7\<rparr>,
        Some \<lparr>p = Fin 1, q = Fin 1, T = Some 60000\<rparr>),
       (\<lparr>stamp_now = 5, whale_now = 6, reset_now = 7\<rparr>,
        Some \<lparr>p = Fin 2, q = Fin 3, T = Some 60001\<rparr>)]
      (new_detector 0))))
   \<and> prices (getChartData (ieee_on []) (\<lambda>t. []) (\<lambda>n x. if x = Fin 2 then ''2.00'' else []) 60002
       (process_all (ieee_on []) Inr
      [(\<lparr>stamp_now = 5, whale_now = 6, reset_now = 7\<rparr>,
        Some \<lparr>p = Fin 1, q = Fin 1, T = Some 60000\<rparr>),
       (\<lparr>stamp_now = 5, whale_now = 6, reset_now = 7\<rparr>,
        Some \<lparr>p = Fin 2, q = Fin 3, T = Some 60001\<rparr>)]
      (new_detector 0))) = [''2.00'']"
proof -
  define d where "d = process_all (ieee_on []) Inr
      [(\<lparr>stamp_now = 5, whale_now = 6, reset_now = 7\<rparr>,
        Some \<lparr>p = Fin 1, q = Fin 1, T = Some 60000\<rparr>),
       (\<lparr>stamp_now = 5, whale_now = 6, reset_now = 7\<rparr>,
        Some \<lparr>p = Fin 2, q = Fin 3, T = Some 60001\<rparr>)]
      (new_detector 0)"
  define fmt :: "nat \<Rightarrow> number \<Rightarrow> string"
    where "fmt = (\<lambda>n x. if x = Fin 2 then ''2.00'' else [])"
  have h: "tradeHistory d =
     [\<lparr>price = Fin 1, quantity = Fin 1, tradeValue = Fin 1, timestamp = 60000, isWhale = False\<rparr>,
      \<lparr>price = Fin 2, quantity = Fin 3, tradeValue = Fin 6, timestamp = 60001, isWhale = False\<rparr>]"
    unfolding d_def by (simp add: run_defs)
  have s: "sorted (map timestamp (tradeHistory d))"
    unfolding h by simp
  have t: "timestamps (getChartData (ieee_on []) (\<lambda>t. []) fmt 60002 d) = [60000]"
    unfolding getChartData_def h
    by (simp add: sortedBuckets_def bucket_step_def bucketTime_def ieee_on_def Let_def)
  have m: "members 60002 (tradeHistory d) 60000 = tradeHistory d"
    unfolding h by (simp add: members_def in_window_def bucketTime_def)
  have c: "price (chrono_last (hd (tradeHistory d)) (tl (tradeHistory d))) = Fin 2"
    unfolding h by simp
  from chart_buckets [of "ieee_on []" "\<lambda>t. []" fmt 60002 d] s
  have "prices (getChartData (ieee_on []) (\<lambda>t. []) fmt 60002 d) =
         map (\<lambda>k. fmt 2 (price (chrono_last (hd (members 60002 (tradeHistory d) k))
                                            (tl (members 60002 (tradeHistory d) k)))))
           (timestamps (getChartData (ieee_on []) (\<lambda>t. []) fmt 60002 d))"
    by blast
  then have "prices (getChartData (ieee_on []) (\<lambda>t. []) fmt 60002 d) = [''2.00'']"
    unfolding t by (simp add: m c fmt_def)
  with s show ?thesis unfolding d_def fmt_def by blast
qed

text \<open>
  Claim C4, as the specification states it, fails where trades arrive out of the order of
  their timestamps. Two trades of the bucket 60000 arrive, the one of time 60001 and price
  2 before the one of time 60000 and price 1: the bucket shows the price 1, the
  chronologically last trade has the price 2.
\<close>

theorem chart_price_not_chronological:
  "map bucket_price (sortedBuckets (ieee_on []) 60002 (tradeHistory (process_all (ieee_on []) Inr
      [(\<lparr>stamp_now = 5, whale_now = 6, reset_now = 7\<rparr>,
        Some \<lparr>p = Fin 2, q = Fin 1, T = Some 60001\<rparr>),
       (\<lparr>stamp_now = 5, whale_now = 6, reset_now = 7\<rparr>,
        Some \<lparr>p = Fin 1, q = Fin 1, T = Some 60000\<rparr>)]
      (new_detector 0)))) = [Fin 1]
   \<and> map timestamp (members 60002 (tradeHistory (process_all (ieee_on []) Inr
      [(\<lparr>stamp_now = 5, whale_now = 6, reset_now = 7\<rparr>,
        Some \<lparr>p = Fin 2, q = Fin 1, T = Some 60001\<rparr>),
       (\<lparr>stamp_now = 5, whale_now = 6, reset_now = 7\<rparr>,
        Some \<lparr>p = Fin 1, q = Fin 1, T = Some 60000\<rparr>)]
      (new_detector 0))) 60000) = [60001, 60000]
   \<and> map price (members 60002 (tradeHistory (process_all (ieee_on []) Inr
      [(\<lparr>stamp_now = 5, whale_now = 6, reset_now = 7\<rparr>,
        Some \<lparr>p = Fin 2, q = Fin 1, T = Some 60001\<rparr>),
       (\<lparr>stamp_now = 5, whale_now = 6, reset_now = 7\<rparr>,
        Some \<lparr>p = Fin 1, q = Fin 1, T = Some 60000\<rparr>)]
      (new_detector 0))) 60000) = [Fin 2, Fin 1]
   \<and> price (chrono_last
        \<lparr>price = Fin 2, quantity = Fin 1, tradeValue = Fin 2, timestamp = 60001, isWhale = False\<rparr>
        [\<lparr>price = Fin 1, quantity = Fin 1, tradeValue = Fin 1, timestamp = 60000, isWhale = False\<rparr>])
       = Fin 2
   \<and> prices (getChartData (ieee_on []) (\<lambda>t. [])
        (\<lambda>n x. if x = Fin 1 then ''1.00'' else if x = Fin 2 then ''2.00'' else [])
        60002 (process_all (ieee_on []) Inr
      [(\<lparr>stamp_now = 5, whale_now = 6, reset_now = 7\<rparr>,
        Some \<lparr>p = Fin 2, q = Fin 1, T = Some 60001\<rparr>),
       (\<lparr>stamp_now = 5, whale_now = 6, reset_now = 7\<rparr>,
        Some \<lparr>p = Fin 1, q = Fin 1, T = Some 60000\<rparr>)]
      (new_detector 0))) = [''1.00'']"
proof -
  define d where "d = process_all (ieee_on []) Inr
      [(\<lparr>stamp_now = 5, whale_now = 6, reset_now = 7\<rparr>,
        Some \<lparr>p = Fin 2, q = Fin 1, T = Some 60001\<rparr>),
       (\<lparr>stamp_now = 5, whale_now = 6, reset_now = 7\<rparr>,
        Some \<lparr>p = Fin 1, q = Fin 1, T = Some 60000\<rparr>)]
      (new_detector 0)"
  have h: "tradeHistory d =
     [\<lparr>price = Fin 2, quantity = Fin 1, tradeValue = Fin 2, timestamp = 60001, isWhale = False\<rparr>,
      \<lparr>price = Fin 1, quantity = Fin 1, tradeValue = Fin 1, timestamp = 60000, isWhale = False\<rparr>]"
    unfolding d_def by (simp add: run_defs)
  have b: "sortedBuckets (ieee_on []) 60002 (tradeHistory d) =
     [\<lparr>bucket_price = Fin 1, totalVolume = Fin 2, count = 2, bucket_timestamp = 60000\<rparr>]"
    unfolding h
    by (simp add: sortedBuckets_def bucket_step_def bucketTime_def ieee_on_def Let_def)
  have m: "members 60002 (tradeHistory d) 60000 = tradeHistory d"
    unfolding h by (simp add: members_def in_window_def bucketTime_def)
  have g: "prices (getChartData (ieee_on []) (\<lambda>t. [])
        (\<lambda>n x. if x = Fin 1 then ''1.00'' else if x = Fin 2 then ''2.00'' else [])
        60002 d) = [''1.00'']"
    unfolding getChartData_def b by (simp add: h)
  have "map bucket_price (sortedBuckets (ieee_on []) 60002 (tradeHistory d)) = [Fin 1]
    \<and> map timestamp (members 60002 (tradeHistory d) 60000) = [60001, 60000]
    \<and> map price (members 60002 (tradeHistory d) 60000) = [Fin 2, Fin 1]
    \<and> price (chrono_last
        \<lparr>price = Fin 2, quantity = Fin 1, tradeValue = Fin 2, timestamp = 60001, isWhale = False\<rparr>
        [\<lparr>price = Fin 1, quantity = Fin 1, tradeValue = Fin 1, timestamp = 60000, isWhale = False\<rparr>])
       = Fin 2
    \<and> prices (getChartData (ieee_on []) (\<lambda>t. [])
        (\<lambda>n x. if x = Fin 1 then ''1.00'' else if x = Fin 2 then ''2.00'' else [])
        60002 d) = [''1.00'']"
    unfolding b m g by (simp add: h)
  then show ?thesis unfolding d_def .
qed

text \<open>
  Claim C7. On an empty history, and on a history whose trades are all older than the
  window, \<open>getChartData\<close> returns four empty sequences. The function is total: it
  raises no error.
\<close>

theorem chart_empty:
  "(\<forall>tr \<in> set (tradeHistory d). timestamp tr < now - 3600000) \<Longrightarrow>
     getChartData rnd lbl tf now d = \<lparr>labels = [], prices = [], volumes = [], timestamps = []\<rparr>"
  by (simp add: getChartData_def sortedBuckets_def bucket_fold_outside)

theorem chart_empty_witness:
  "tradeHistory (new_detector 0) = []
   \<and> getChartData (ieee_on []) (\<lambda>t. []) (\<lambda>n x. []) 4000000 (new_detector 0)
       = \<lparr>labels = [], prices = [], volumes = [], timestamps = []\<rparr>
   \<and> map timestamp (tradeHistory (process_all (ieee_on []) Inr
          [(\<lparr>stamp_now = 5, whale_now = 6, reset_now = 7\<rparr>,
            Some \<lparr>p = Fin 100, q = Fin 1, T = Some 3\<rparr>)]
          (new_detector 0))) = [3]
   \<and> (3::int) < 4000000 - 3600000
   \<and> getChartData (ieee_on []) (\<lambda>t. []) (\<lambda>n x. []) 4000000 (process_all (ieee_on []) Inr
          [(\<lparr>stamp_now = 5, whale_now = 6, reset_now = 7\<rparr>,
            Some \<lparr>p = Fin 100, q = Fin 1, T = Some 3\<rparr>)]
          (new_detector 0))
       = \<lparr>labels = [], prices = [], volumes = [], timestamps = []\<rparr>"
proof -
  define d where "d = process_all (ieee_on []) Inr
          [(\<lparr>stamp_now = 5, whale_now = 6, reset_now = 7\<rparr>,
            Some \<lparr>p = Fin 100, q = Fin 1, T = Some 3\<rparr>)]
          (new_detector 0)"
  have e: "tradeHistory (new_detector 0) = []"
    by (simp add: new_detector_def)
  have h: "map timestamp (tradeHistory d) = [3]"
    unfolding d_def by (simp add: run_defs)
  have a: "\<forall>tr \<in> set (tradeHistory (new_detector 0)). timestamp tr < 4000000 - 3600000"
    by (simp add: e)
  have "\<forall>t \<in> set (map timestamp (tradeHistory d)). t < 4000000 - 3600000"
    unfolding h by simp
  then have b: "\<forall>tr \<in> set (tradeHistory d). timestamp tr < 4000000 - 3600000"
    by simp
  from e h chart_empty [OF a, of "ieee_on []" "\<lambda>t. []" "\<lambda>n x. []"]
    chart_empty [OF b, of "ieee_on []" "\<lambda>t. []" "\<lambda>n x. []"]
  show ?thesis unfolding d_def by simp
qed

section \<open>The exponential average\<close>

lemma upt_2_3: "[2 ..< 3] = [2::nat]"
  by (simp add: upt_rec)

text \<open>
  Claim C5. The specification seeds the exponential average with the simple average of
  the first \<open>period\<close> closes, which gives 25 for the period 2 over 10, 20, 30.
  \<open>calculateEMA\<close> takes its seed from \<open>prices.slice(-period)\<close>, the last \<open>period\<close>
  closes, and then runs the recurrence from index \<open>period\<close> on: over 10, 20, 30 the
  seed is 25 and the result is 28.333333333333336 in doubles (85/3 in exact
  arithmetic), where the average of the specification is 25 in both. With fewer than
  \<open>period\<close> closes, and only then, the result is absent.
\<close>

theorem calculateEMA_seed:
  "calculateEMA (ieee_on ema_table) [Fin 10, Fin 20, Fin 30] 2
     = Some (Fin (3987562170067627 / 140737488355328))
   \<and> spec_EMA (ieee_on ema_table) [Fin 10, Fin 20, Fin 30] 2 = Some (Fin 25)
   \<and> calculateEMA (ieee_on ema_table) [Fin 10, Fin 20, Fin 30] 2
       \<noteq> spec_EMA (ieee_on ema_table) [Fin 10, Fin 20, Fin 30] 2
   \<and> calculateEMA Fin [Fin 10, Fin 20, Fin 30] 2 = Some (Fin (85 / 3))
   \<and> spec_EMA Fin [Fin 10, Fin 20, Fin 30] 2 = Some (Fin 25)
   \<and> calculateEMA Fin [Fin 10, Fin 20, Fin 30] 2 \<noteq> spec_EMA Fin [Fin 10, Fin 20, Fin 30] 2
   \<and> (calculateEMA rnd ps period = None) = (length ps < period)"
proof -
  have a: "calculateEMA (ieee_on ema_table) [Fin 10, Fin 20, Fin 30] 2
     = Some (Fin (3987562170067627 / 140737488355328))"
    by (simp add: calculateEMA_def slice_last_def jsum_def ema_step_def jsub_def upt_2_3
          ieee_on_def ema_table_def Let_def)
  have b: "spec_EMA (ieee_on ema_table) [Fin 10, Fin 20, Fin 30] 2 = Some (Fin 25)"
    by (simp add: spec_EMA_def jsum_def jsub_def ieee_on_def ema_table_def Let_def)
  have c: "calculateEMA Fin [Fin 10, Fin 20, Fin 30] 2 = Some (Fin (85 / 3))"
    by (simp add: calculateEMA_def slice_last_def jsum_def ema_step_def jsub_def upt_2_3 Let_def)
  have d: "spec_EMA Fin [Fin 10, Fin 20, Fin 30] 2 = Some (Fin 25)"
    by (simp add: spec_EMA_def jsum_def jsub_def Let_def)
  have e: "(calculateEMA rnd ps period = None) = (length ps < period)"
    by (simp add: calculateEMA_def Let_def)
  from a b c d e show ?thesis by simp
qed

section \<open>The momentum oscillator\<close>

lemma jle_Fin_left: "jle (Fin a) n \<Longrightarrow> n = PInf \<or> (\<exists>y. n = Fin y \<and> a \<le> y)"
  by (cases n) simp_all

lemma jle_Fin_right: "jle n (Fin b) \<Longrightarrow> n = NInf \<or> (\<exists>y. n = Fin y \<and> y \<le> b)"
  by (cases n) simp_all

lemma rounding_mono: "rounding rnd \<Longrightarrow> x \<le> y \<Longrightarrow> jle (rnd x) (rnd y)"
  by (simp add: rounding_def)

lemma rnd_from_0:
  assumes "rounding rnd" and "0 \<le> x"
  shows "rnd x = PInf \<or> (\<exists>y. rnd x = Fin y \<and> 0 \<le> y)"
proof -
  have "jle (rnd 0) (rnd x)" using assms by (rule rounding_mono)
  moreover have "rnd 0 = Fin 0" using assms(1) by (simp add: rounding_def)
  ultimately show ?thesis using jle_Fin_left [of 0 "rnd x"] by simp
qed

lemma rnd_from_1:
  assumes "rounding rnd" and "1 \<le> x"
  shows "rnd x = PInf \<or> (\<exists>y. rnd x = Fin y \<and> 1 \<le> y)"
proof -
  have "jle (rnd 1) (rnd x)" using assms by (rule rounding_mono)
  moreover have "rnd 1 = Fin 1" using assms(1) by (simp add: rounding_def)
  ultimately show ?thesis using jle_Fin_left [of 1 "rnd x"] by simp
qed

lemma rnd_percent:
  assumes "rounding rnd" and "0 \<le> x" and "x \<le> 100"
  shows "percent (rnd x)"
proof -
  have lo: "jle (Fin 0) (rnd x)"
    using rounding_mono [OF assms(1,2)] assms(1) by (simp add: rounding_def)
  have hi: "jle (rnd x) (Fin 100)"
    using rounding_mono [OF assms(1,3)] assms(1) by (simp add: rounding_def)
  from lo hi show ?thesis by (cases "rnd x") simp_all
qed

lemma rnd_not_negative: "rounding rnd \<Longrightarrow> 0 \<le> x \<Longrightarrow> not_negative (rnd x)"
  using rnd_from_0 [of rnd x] by auto

lemma jadd_not_negative:
  "rounding rnd \<Longrightarrow> not_negative a \<Longrightarrow> not_negative b \<Longrightarrow> not_negative (jadd rnd a b)"
  by (cases a; cases b) (simp_all add: rnd_not_negative)

lemma jdiv_not_negative:
  "rounding rnd \<Longrightarrow> not_negative a \<Longrightarrow> not_negative b \<Longrightarrow> not_negative (jdiv rnd a b)"
  by (cases a; cases b) (auto simp: rnd_not_negative signed_inf_def)

lemma jgt_0_not_negative: "jgt n (Fin 0) \<Longrightarrow> not_negative n"
  by (cases n) simp_all

lemma not_jgt_0_not_negative: "\<not> jgt n (Fin 0) \<Longrightarrow> not_negative (jneg n)"
  by (cases n) simp_all

lemma rsi_step_not_negative:
  assumes "rounding rnd" and "not_negative (fst gl)" and "not_negative (snd gl)"
  shows "not_negative (fst (rsi_step rnd ps gl i)) \<and> not_negative (snd (rsi_step rnd ps gl i))"
proof (cases "jgt (jsub rnd (ps ! i) (ps ! (i - 1))) (Fin 0)")
  case True
  then show ?thesis
    using assms by (simp add: rsi_step_def Let_def jadd_not_negative jgt_0_not_negative)
next
  case False
  then show ?thesis
    using assms
    by (simp add: rsi_step_def Let_def jsub_def [of rnd "snd gl"] jadd_not_negative
          not_jgt_0_not_negative)
qed

lemma rsi_fold_not_negative:
  "rounding rnd \<Longrightarrow> not_negative (fst gl) \<Longrightarrow> not_negative (snd gl) \<Longrightarrow>
     not_negative (fst (foldl (rsi_step rnd ps) gl is))
     \<and> not_negative (snd (foldl (rsi_step rnd ps) gl is))"
proof (induction "is" arbitrary: gl)
  case Nil
  then show ?case by simp
next
  case (Cons i "is")
  from rsi_step_not_negative [OF Cons.prems] Cons.IH [OF Cons.prems(1)]
  show ?case by simp
qed

lemma rsi_sums_not_negative:
  "rounding rnd \<Longrightarrow>
     not_negative (fst (rsi_sums rnd ps period)) \<and> not_negative (snd (rsi_sums rnd ps period))"
  unfolding rsi_sums_def by (rule rsi_fold_not_negative) simp_all

lemma rsi_result_range:
  assumes r: "rounding rnd" and nn: "not_negative rs"
  shows "jsub rnd (Fin 100) (jdiv rnd (Fin 100) (jadd rnd (Fin 1) rs)) = NaN
         \<or> percent (jsub rnd (Fin 100) (jdiv rnd (Fin 100) (jadd rnd (Fin 1) rs)))"
proof -
  have r100: "rnd 100 = Fin 100" using r by (simp add: rounding_def)
  have inf: "percent (jsub rnd (Fin 100) (jdiv rnd (Fin 100) PInf))"
    by (simp add: jsub_def r100)
  have fin: "percent (jsub rnd (Fin 100) (jdiv rnd (Fin 100) (Fin y)))" if y: "1 \<le> y" for y
  proof -
    have q: "0 \<le> 100 / y" "100 / y \<le> 100"
      using y by (simp_all add: divide_le_eq)
    from rnd_percent [OF r q] obtain z where z: "rnd (100 / y) = Fin z" "0 \<le> z" "z \<le> 100"
      by (cases "rnd (100 / y)") simp_all
    have "percent (rnd (100 + - z))"
      using z by (intro rnd_percent [OF r]) simp_all
    then show ?thesis using y z by (simp add: jsub_def)
  qed
  show ?thesis
  proof (cases rs)
    case NaN
    then show ?thesis by (simp add: jsub_def)
  next
    case PInf
    then show ?thesis using inf by simp
  next
    case NInf
    then show ?thesis using nn by simp
  next
    case (Fin x)
    with nn have "1 \<le> 1 + x" by simp
    from rnd_from_1 [OF r this] show ?thesis
      using Fin inf fin by auto
  qed
qed

lemma calculateRSI_unfold:
  "\<not> length ps < period + 1 \<Longrightarrow>
     calculateRSI rnd ps period =
       jsub rnd (Fin 100) (jdiv rnd (Fin 100) (jadd rnd (Fin 1)
         (if jeq (rsi_avgLoss rnd ps period) (Fin 0) then Fin 100
          else jdiv rnd (rsi_avgGain rnd ps period) (rsi_avgLoss rnd ps period))))"
  by (simp add: calculateRSI_def rsi_avgGain_def rsi_avgLoss_def Let_def)

lemma calculateRSI_range:
  assumes r: "rounding rnd"
  shows "calculateRSI rnd ps period = NaN \<or> percent (calculateRSI rnd ps period)"
proof (cases "length ps < period + 1")
  case True
  then show ?thesis by (simp add: calculateRSI_def)
next
  case False
  have p: "not_negative (Fin (real period))" by simp
  have g: "not_negative (rsi_avgGain rnd ps period)"
    and l: "not_negative (rsi_avgLoss rnd ps period)"
    unfolding rsi_avgGain_def rsi_avgLoss_def
    using rsi_sums_not_negative [OF r, of ps period] p
    by (simp_all add: jdiv_not_negative [OF r])
  have "not_negative (if jeq (rsi_avgLoss rnd ps period) (Fin 0) then Fin 100
          else jdiv rnd (rsi_avgGain rnd ps period) (rsi_avgLoss rnd ps period))"
    using g l by (simp add: jdiv_not_negative [OF r])
  from rsi_result_range [OF r this] show ?thesis
    unfolding calculateRSI_unfold [OF False] .
qed

lemma rsi_fold_split:
  "foldl (rsi_step rnd ps) (g, l) is =
     (foldl (jadd rnd) g
        (filter (\<lambda>d. jgt d (Fin 0)) (map (\<lambda>i. jsub rnd (ps ! i) (ps ! (i - 1))) is)),
      foldl (jsub rnd) l
        (filter (\<lambda>d. \<not> jgt d (Fin 0)) (map (\<lambda>i. jsub rnd (ps ! i) (ps ! (i - 1))) is)))"
  by (induction "is" arbitrary: g l) (simp_all add: rsi_step_def Let_def)

lemma rsi_sums_split:
  "rsi_sums rnd ps period =
     (jsum rnd (filter (\<lambda>d. jgt d (Fin 0)) (rsi_deltas rnd ps period)),
      foldl (jsub rnd) (Fin 0) (filter (\<lambda>d. \<not> jgt d (Fin 0)) (rsi_deltas rnd ps period)))"
  by (simp add: rsi_sums_def rsi_deltas_def jsum_def rsi_fold_split)

lemma losses_zero:
  "rnd 0 = Fin 0 \<Longrightarrow> list_all (\<lambda>d. jle (Fin 0) d) ds \<Longrightarrow>
     foldl (jsub rnd) (Fin 0) (filter (\<lambda>d. \<not> jgt d (Fin 0)) ds) = Fin 0"
proof (induction ds)
  case Nil
  then show ?case by simp
next
  case (Cons d ds)
  then have d: "jle (Fin 0) d" and rest: "list_all (\<lambda>d. jle (Fin 0) d) ds" by simp_all
  show ?case
  proof (cases "jgt d (Fin 0)")
    case True
    then show ?thesis using Cons.IH [OF Cons.prems(1) rest] by simp
  next
    case False
    with d have "d = Fin 0" by (cases d) simp_all
    then show ?thesis
      using Cons.IH [OF Cons.prems(1) rest] Cons.prems(1) by (simp add: jsub_def)
  qed
qed

lemma rounding_ieee_on_Nil: "rounding (ieee_on [])"
  by (auto simp: rounding_def ieee_on_def)

text \<open>
  Claim C6, as the code has it. With fewer than \<open>period + 1\<close> closes the result is 50.
  Otherwise the average gain is the sum of the positive trailing differences over the
  period, the average loss the sum of the others, negated, over the period, and the
  result is \<open>100 - 100 / (1 + rs)\<close>, where \<open>rs\<close> is 100 when the average loss is
  zero and the quotient of the two averages otherwise. When no trailing difference is
  negative (and the period is at least 1), the average loss is zero and the result is
  \<open>100 - 100 / 101\<close> as the doubles compute it. For every rounding that is monotone
  and keeps 0, 1 and 100, the result is \<open>NaN\<close> or a finite number from 0 to 100.
  The function is total: it raises no error.
\<close>

theorem calculateRSI_value:
  "(length ps < period + 1 \<longrightarrow> calculateRSI rnd ps period = Fin 50)
   \<and> (\<not> length ps < period + 1 \<longrightarrow>
        calculateRSI rnd ps period =
          (if jeq (rsi_avgLoss rnd ps period) (Fin 0)
           then jsub rnd (Fin 100) (jdiv rnd (Fin 100) (jadd rnd (Fin 1) (Fin 100)))
           else jsub rnd (Fin 100) (jdiv rnd (Fin 100) (jadd rnd (Fin 1)
                  (jdiv rnd (rsi_avgGain rnd ps period) (rsi_avgLoss rnd ps period))))))
   \<and> rsi_avgGain rnd ps period =
        jdiv rnd (jsum rnd (filter (\<lambda>d. jgt d (Fin 0)) (rsi_deltas rnd ps period)))
          (Fin (real period))
   \<and> rsi_avgLoss rnd ps period =
        jdiv rnd (foldl (jsub rnd) (Fin 0)
                    (filter (\<lambda>d. \<not> jgt d (Fin 0)) (rsi_deltas rnd ps period)))
          (Fin (real period))
   \<and> (rnd 0 = Fin 0 \<and> 0 < period \<and> period + 1 \<le> length ps
        \<and> list_all (\<lambda>d. jle (Fin 0) d) (rsi_deltas rnd ps period) \<longrightarrow>
        rsi_avgLoss rnd ps period = Fin 0
        \<and> calculateRSI rnd ps period =
            jsub rnd (Fin 100) (jdiv rnd (Fin 100) (jadd rnd (Fin 1) (Fin 100))))
   \<and> (rounding rnd \<longrightarrow>
        calculateRSI rnd ps period = NaN \<or> percent (calculateRSI rnd ps period))"
proof -
  have short: "length ps < period + 1 \<Longrightarrow> calculateRSI rnd ps period = Fin 50"
    by (simp add: calculateRSI_def)
  have long: "\<not> length ps < period + 1 \<Longrightarrow>
        calculateRSI rnd ps period =
          (if jeq (rsi_avgLoss rnd ps period) (Fin 0)
           then jsub rnd (Fin 100) (jdiv rnd (Fin 100) (jadd rnd (Fin 1) (Fin 100)))
           else jsub rnd (Fin 100) (jdiv rnd (Fin 100) (jadd rnd (Fin 1)
                  (jdiv rnd (rsi_avgGain rnd ps period) (rsi_avgLoss rnd ps period)))))"
    by (simp add: calculateRSI_unfold)
  have gain: "rsi_avgGain rnd ps period =
        jdiv rnd (jsum rnd (filter (\<lambda>d. jgt d (Fin 0)) (rsi_deltas rnd ps period)))
          (Fin (real period))"
    by (simp add: rsi_avgGain_def rsi_sums_split)
  have loss: "rsi_avgLoss rnd ps period =
        jdiv rnd (foldl (jsub rnd) (Fin 0)
                    (filter (\<lambda>d. \<not> jgt d (Fin 0)) (rsi_deltas rnd ps period)))
          (Fin (real period))"
    by (simp add: rsi_avgLoss_def rsi_sums_split)
  have zero: "rsi_avgLoss rnd ps period = Fin 0
        \<and> calculateRSI rnd ps period =
            jsub rnd (Fin 100) (jdiv rnd (Fin 100) (jadd rnd (Fin 1) (Fin 100)))"
    if h: "rnd 0 = Fin 0 \<and> 0 < period \<and> period + 1 \<le> length ps
        \<and> list_all (\<lambda>d. jle (Fin 0) d) (rsi_deltas rnd ps period)"
  proof -
    from h have "foldl (jsub rnd) (Fin 0)
        (filter (\<lambda>d. \<not> jgt d (Fin 0)) (rsi_deltas rnd ps period)) = Fin 0"
      by (intro losses_zero) simp_all
    then have z: "rsi_avgLoss rnd ps period = Fin 0"
      unfolding loss using h by simp
    from h have "\<not> length ps < period + 1" by simp
    from long [OF this] z show ?thesis by (simp add: jeq_def)
  qed
  have range: "rounding rnd \<Longrightarrow>
        calculateRSI rnd ps period = NaN \<or> percent (calculateRSI rnd ps period)"
    by (rule calculateRSI_range)
  from short long gain loss zero range show ?thesis by blast
qed

theorem calculateRSI_value_witness:
  "calculateRSI (ieee_on []) [Fin 1, Fin 2] 14 = Fin 50
   \<and> rsi_deltas (ieee_on rsi_table) [Fin 1, Fin 2] 1 = [Fin 1]
   \<and> rsi_avgLoss (ieee_on rsi_table) [Fin 1, Fin 2] 1 = Fin 0
   \<and> calculateRSI (ieee_on rsi_table) [Fin 1, Fin 2] 1
       = Fin (6967202393828119 / 70368744177664)
   \<and> rounding (ieee_on [])
   \<and> calculateRSI (ieee_on []) [Fin 1, Fin 0, Fin 3] 2 = Fin 75
   \<and> percent (calculateRSI (ieee_on []) [Fin 1, Fin 0, Fin 3] 2)"
proof -
  have u: "[Suc 0 ..< 2] = [1]" "[Suc 0 ..< 3] = [1, 2]"
    by (simp_all add: upt_rec)
  have h1: "length [Fin 1, Fin 2] < 14 + 1" by simp
  from calculateRSI_value [of "[Fin 1, Fin 2]" 14 "ieee_on []"] h1
  have r1: "calculateRSI (ieee_on []) [Fin 1, Fin 2] 14 = Fin 50" by blast
  have ds: "rsi_deltas (ieee_on rsi_table) [Fin 1, Fin 2] 1 = [Fin 1]"
    by (simp add: rsi_deltas_def jsub_def ieee_on_def rsi_table_def u)
  have h2: "ieee_on rsi_table 0 = Fin 0 \<and> (0::nat) < 1 \<and> 1 + 1 \<le> length [Fin 1, Fin 2]
        \<and> list_all (\<lambda>d. jle (Fin 0) d) (rsi_deltas (ieee_on rsi_table) [Fin 1, Fin 2] 1)"
    unfolding ds by (simp add: ieee_on_def rsi_table_def)
  from calculateRSI_value [of "[Fin 1, Fin 2]" 1 "ieee_on rsi_table"] h2
  have z: "rsi_avgLoss (ieee_on rsi_table) [Fin 1, Fin 2] 1 = Fin 0"
    and "calculateRSI (ieee_on rsi_table) [Fin 1, Fin 2] 1 =
            jsub (ieee_on rsi_table) (Fin 100)
              (jdiv (ieee_on rsi_table) (Fin 100) (jadd (ieee_on rsi_table) (Fin 1) (Fin 100)))"
    by blast+
  then have r2: "calculateRSI (ieee_on rsi_table) [Fin 1, Fin 2] 1
       = Fin (6967202393828119 / 70368744177664)"
    by (simp add: jsub_def ieee_on_def rsi_table_def)
  have rd: "rounding (ieee_on [])" by (rule rounding_ieee_on_Nil)
  have r3: "calculateRSI (ieee_on []) [Fin 1, Fin 0, Fin 3] 2 = Fin 75"
    by (simp add: calculateRSI_def rsi_sums_def rsi_step_def jsub_def jeq_def ieee_on_def
          Let_def u)
  from calculateRSI_value [of "[Fin 1, Fin 0, Fin 3]" 2 "ieee_on []"] rd
  have "calculateRSI (ieee_on []) [Fin 1, Fin 0, Fin 3] 2 = NaN
        \<or> percent (calculateRSI (ieee_on []) [Fin 1, Fin 0, Fin 3] 2)"
    by blast
  then have r4: "percent (calculateRSI (ieee_on []) [Fin 1, Fin 0, Fin 3] 2)"
    unfolding r3 by simp
  from r1 ds z r2 rd r3 r4 show ?thesis by blast
qed

text \<open>
  Claim C6, as the specification states it, fails. With zero average loss the ratio is
  set to 100, not the result: the closes 1, 2 with period 1 give 99.00990099009901 and
  not 100. The result is not always in the interval: differences that overflow, and a
  close that is \<open>NaN\<close>, give \<open>NaN\<close>. And the average loss is zero also where a
  difference is negative: with the closes \<open>2 ^ -1074\<close>, 0, 0 the loss underflows.
\<close>

theorem calculateRSI_zero_loss:
  "calculateRSI (ieee_on rsi_table) [Fin 1, Fin 2] 1 = Fin (6967202393828119 / 70368744177664)
   \<and> rsi_deltas (ieee_on rsi_table) [Fin 1, Fin 2] 1 = [Fin 1]
   \<and> rsi_avgLoss (ieee_on rsi_table) [Fin 1, Fin 2] 1 = Fin 0
   \<and> calculateRSI (ieee_on rsi_table) [Fin 1, Fin 2] 1 \<noteq> Fin 100
   \<and> calculateRSI (ieee_on []) [Fin (- (2 ^ 1023)), Fin (2 ^ 1023), Fin (- (2 ^ 1023))] 2 = NaN
   \<and> calculateRSI (ieee_on []) [NaN, Fin 1] 1 = NaN
   \<and> rsi_deltas (ieee_on ((1 / 2 ^ 1074 / 2, 0) # rsi_table)) [Fin (1 / 2 ^ 1074), Fin 0, Fin 0] 2
       = [Fin (- (1 / 2 ^ 1074)), Fin 0]
   \<and> calculateRSI (ieee_on ((1 / 2 ^ 1074 / 2, 0) # rsi_table)) [Fin (1 / 2 ^ 1074), Fin 0, Fin 0] 2
       = Fin (6967202393828119 / 70368744177664)"
proof -
  have u: "[Suc 0 ..< 2] = [1]" "[Suc 0 ..< 3] = [1, 2]"
    by (simp_all add: upt_rec)
  have f: "rsi_deltas (ieee_on ((1 / 2 ^ 1074 / 2, 0) # rsi_table))
        [Fin (1 / 2 ^ 1074), Fin 0, Fin 0] 2 = [Fin (- (1 / 2 ^ 1074)), Fin 0]"
    by (simp add: rsi_deltas_def jsub_def ieee_on_def rsi_table_def u)
  have g: "calculateRSI (ieee_on ((1 / 2 ^ 1074 / 2, 0) # rsi_table))
        [Fin (1 / 2 ^ 1074), Fin 0, Fin 0] 2 = Fin (6967202393828119 / 70368744177664)"
    by (simp add: calculateRSI_def rsi_sums_def rsi_step_def jsub_def jeq_def ieee_on_def
          rsi_table_def u Let_def)
  have a: "calculateRSI (ieee_on rsi_table) [Fin 1, Fin 2] 1
      = Fin (6967202393828119 / 70368744177664)"
    by (simp add: calculateRSI_def rsi_sums_def rsi_step_def jsub_def jeq_def ieee_on_def
          rsi_table_def u Let_def)
  have b: "rsi_deltas (ieee_on rsi_table) [Fin 1, Fin 2] 1 = [Fin 1]"
    by (simp add: rsi_deltas_def jsub_def ieee_on_def rsi_table_def u)
  have c: "rsi_avgLoss (ieee_on rsi_table) [Fin 1, Fin 2] 1 = Fin 0"
    by (simp add: rsi_avgLoss_def rsi_sums_def rsi_step_def jsub_def ieee_on_def
          rsi_table_def u Let_def)
  have d: "calculateRSI (ieee_on [])
      [Fin (- (2 ^ 1023)), Fin (2 ^ 1023), Fin (- (2 ^ 1023))] 2 = NaN"
    by (simp add: calculateRSI_def rsi_sums_def rsi_step_def jsub_def jeq_def ieee_on_def
          signed_inf_def u Let_def)
  have e: "calculateRSI (ieee_on []) [NaN, Fin 1] 1 = NaN"
    by (simp add: calculateRSI_def rsi_sums_def rsi_step_def jsub_def jeq_def ieee_on_def
          u Let_def)
  from a b c d e f g show ?thesis by simp
qed

end
